theory Spec2Isabelle
  imports Complex_Main "HOL-Library.Word" "HOL-Library.Log_Nat"
begin

section \<open>Data model of node/scheduler/node/manager.go\<close>

text \<open>
  The manager keeps its nodes behind pointers (\<open>*Node\<close>): the two registries map a node
  identity to a pointer, and weight distribution, repayment and the keepalive sweep write
  through that pointer. The model therefore has an explicit store from addresses to node
  objects. A pointer is \<open>None\<close> (Go's \<open>nil\<close>) or \<open>Some a\<close>; every address holds an
  object, since Go has no dangling pointers.
\<close>

type_synonym addr = nat
type_synonym ptr = "addr option"

text \<open>
  \<open>types.NodeType\<close> is declared outside this file. The manager only compares it with
  \<open>types.NodeCandidate\<close> and \<open>types.NodeEdge\<close>; \<open>NodeUnknown\<close> stands for every other
  value of the type.
\<close>

datatype NodeType = NodeUnknown | NodeEdge | NodeCandidate

text \<open>\<open>types.NatType\<close>: the four classes \<open>calculateMN\<close> switches on, and any other value.\<close>

datatype NatType =
  NatTypeFullCone | NatTypeRestricted | NatTypePortRestricted | NatTypeSymmetric | NatTypeUnknown

datatype Event = EventNodeOnline | EventNodeOffline

datatype panic = NilPointerDereference

text \<open>
  \<open>float64\<close> values are the rationals they denote (finite values only). \<open>int\<close> counters that
  the manager increments are 64-bit words, so that \<open>++\<close> and \<open>+=\<close> wrap as in Go; integers
  that are only read and compared are \<open>int\<close>. Times are nanosecond counts.
\<close>

type_synonym float64 = rat

record NodeInfo =
  CPUCores :: int
  Memory :: float64
  DiskSpace :: float64

record Node =
  NodeID :: string
  Type :: NodeType
  Info :: NodeInfo
  NATType :: NatType
  BandwidthUp :: int
  OnlineDuration :: "64 word"
  lastRequestTime :: int
  abnormal :: bool
  selectWeights :: "nat list"

text \<open>
  Modelled from the spec: the weight ledger (type \<open>weightManager\<close>, not in this file). Each
  tier has a pool of weight slots; a slot is a handle together with the identity of the node
  it was allocated to. \<open>levelSelectWeight\<close> is the configured table from score level to
  slot count (\<open>SlotCountForScore\<close> of the spec).
\<close>

record weightManager =
  edgeWeights :: "(nat \<times> string) list"
  candidateWeights :: "(nat \<times> string) list"
  levelSelectWeight :: "int \<Rightarrow> nat"

text \<open>
  The manager and what it reaches: both registries (\<open>sync.Map\<close> from identity to
  \<open>*Node\<close>, as association lists in some iteration order), the two counters, the ledger,
  the node store, the score levels held by the database, and logs of what was handed to the
  collaborators (\<open>notify.Pub\<close>, \<open>node.ClientCloser\<close>).
\<close>

record Manager =
  edgeNodes :: "(string \<times> addr) list"
  candidateNodes :: "(string \<times> addr) list"
  Edges :: "64 word"
  Candidates :: "64 word"
  weightMgr :: weightManager
  heap :: "addr \<Rightarrow> Node"
  scoreLevels :: "string \<Rightarrow> int"
  published :: "(ptr \<times> Event) list"
  closed :: "addr list"

section \<open>Constants\<close>

definition Second :: int where "Second = 1000000000"
definition Minute :: int where "Minute = 60 * Second"

definition keepaliveTime :: int where "keepaliveTime = 30 * Second"
definition saveInfoInterval :: int where "saveInfoInterval = 2"

section \<open>Collaborators\<close>

text \<open>
  Modelled from the spec: \<open>Node.IsAbnormal\<close> (not in this file) is a predicate derived from
  the node's own state; the field \<open>abnormal\<close> holds its value. \<open>Node.LastRequestTime\<close>
  returns the last-contact timestamp.
\<close>

definition IsAbnormal :: "Node \<Rightarrow> bool" where
  "IsAbnormal n = abnormal n"

definition LastRequestTime :: "Node \<Rightarrow> int" where
  "LastRequestTime n = lastRequestTime n"

text \<open>\<open>time.Time.After\<close> and \<open>time.Time.Add\<close> on nanosecond counts.\<close>

definition After :: "int \<Rightarrow> int \<Rightarrow> bool" where
  "After t u = (u < t)"

definition Add :: "int \<Rightarrow> int \<Rightarrow> int" where
  "Add t d = t + d"

text \<open>\<open>m.getNodeScoreLevel\<close> reads the node's score level from the database.\<close>

definition getNodeScoreLevel :: "Manager \<Rightarrow> string \<Rightarrow> int" where
  "getNodeScoreLevel m nodeID = scoreLevels m nodeID"

definition Pub :: "Manager \<Rightarrow> ptr \<Rightarrow> Event \<Rightarrow> Manager" where
  "Pub m p ev = m\<lparr>published := published m @ [(p, ev)]\<rparr>"

definition ClientCloser :: "Manager \<Rightarrow> addr \<Rightarrow> Manager" where
  "ClientCloser m a = m\<lparr>closed := closed m @ [a]\<rparr>"

subsection \<open>The weight ledger\<close>

text \<open>
  Modelled from the spec: \<open>getWeightNum\<close> is the deterministic lookup of the slot count for a
  score level. Allocation produces that many distinct handles, none of them in the pool yet
  (the handles following the largest one in use), enters them into the tier's pool under the
  node's identity and returns them. Repayment removes exactly the given handles; repaying no
  handles changes nothing. \<open>cleanWeights\<close> clears both pools.
\<close>

definition getWeightNum :: "weightManager \<Rightarrow> int \<Rightarrow> nat" where
  "getWeightNum wm score = levelSelectWeight wm score"

fun freshHandle :: "(nat \<times> string) list \<Rightarrow> nat" where
  "freshHandle [] = 0"
| "freshHandle (e # pool) = max (Suc (fst e)) (freshHandle pool)"

definition distributeWeight ::
  "(nat \<times> string) list \<Rightarrow> string \<Rightarrow> nat \<Rightarrow> nat list \<times> (nat \<times> string) list" where
  "distributeWeight pool nodeID n =
     (let k = freshHandle pool; hs = [k ..< k + n]
      in (hs, pool @ map (\<lambda>h. (h, nodeID)) hs))"

definition repayWeight :: "(nat \<times> string) list \<Rightarrow> nat list \<Rightarrow> (nat \<times> string) list" where
  "repayWeight pool hs = filter (\<lambda>e. fst e \<notin> set hs) pool"

definition distributeEdgeWeight ::
  "weightManager \<Rightarrow> string \<Rightarrow> nat \<Rightarrow> nat list \<times> weightManager" where
  "distributeEdgeWeight wm nodeID n =
     (let r = distributeWeight (edgeWeights wm) nodeID n
      in (fst r, wm\<lparr>edgeWeights := snd r\<rparr>))"

definition distributeCandidateWeight ::
  "weightManager \<Rightarrow> string \<Rightarrow> nat \<Rightarrow> nat list \<times> weightManager" where
  "distributeCandidateWeight wm nodeID n =
     (let r = distributeWeight (candidateWeights wm) nodeID n
      in (fst r, wm\<lparr>candidateWeights := snd r\<rparr>))"

definition repayEdgeWeight :: "weightManager \<Rightarrow> nat list \<Rightarrow> weightManager" where
  "repayEdgeWeight wm hs = wm\<lparr>edgeWeights := repayWeight (edgeWeights wm) hs\<rparr>"

definition repayCandidateWeight :: "weightManager \<Rightarrow> nat list \<Rightarrow> weightManager" where
  "repayCandidateWeight wm hs = wm\<lparr>candidateWeights := repayWeight (candidateWeights wm) hs\<rparr>"

definition cleanWeights :: "weightManager \<Rightarrow> weightManager" where
  "cleanWeights wm = wm\<lparr>edgeWeights := [], candidateWeights := []\<rparr>"

text \<open>The slots a pool holds for one identity.\<close>

definition slotsOf :: "(nat \<times> string) list \<Rightarrow> string \<Rightarrow> nat list" where
  "slotsOf pool nodeID = map fst (filter (\<lambda>e. snd e = nodeID) pool)"

section \<open>The registry\<close>

text \<open>
  \<open>DistributeNodeWeight\<close> and \<open>RepayNodeWeight\<close> read fields of \<open>node\<close> without a
  \<open>nil\<close> check: on \<open>nil\<close> they panic.
\<close>

definition DistributeNodeWeight :: "Manager \<Rightarrow> ptr \<Rightarrow> panic + Manager" where
  "DistributeNodeWeight m p =
     (case p of
        None \<Rightarrow> Inl NilPointerDereference
      | Some a \<Rightarrow>
          (let node = heap m a in
           if IsAbnormal node then Inr m
           else
             (let score = getNodeScoreLevel m (NodeID node);
                  wNum = getWeightNum (weightMgr m) score
              in if Type node = NodeCandidate then
                   (let r = distributeCandidateWeight (weightMgr m) (NodeID node) wNum
                    in Inr (m\<lparr>weightMgr := snd r,
                               heap := (heap m)(a := node\<lparr>selectWeights := fst r\<rparr>)\<rparr>))
                 else if Type node = NodeEdge then
                   (let r = distributeEdgeWeight (weightMgr m) (NodeID node) wNum
                    in Inr (m\<lparr>weightMgr := snd r,
                               heap := (heap m)(a := node\<lparr>selectWeights := fst r\<rparr>)\<rparr>))
                 else Inr m)))"

definition RepayNodeWeight :: "Manager \<Rightarrow> ptr \<Rightarrow> panic + Manager" where
  "RepayNodeWeight m p =
     (case p of
        None \<Rightarrow> Inl NilPointerDereference
      | Some a \<Rightarrow>
          (let node = heap m a in
           if Type node = NodeCandidate then
             Inr (m\<lparr>weightMgr := repayCandidateWeight (weightMgr m) (selectWeights node),
                     heap := (heap m)(a := node\<lparr>selectWeights := []\<rparr>)\<rparr>)
           else if Type node = NodeEdge then
             Inr (m\<lparr>weightMgr := repayEdgeWeight (weightMgr m) (selectWeights node),
                     heap := (heap m)(a := node\<lparr>selectWeights := []\<rparr>)\<rparr>)
           else Inr m))"

text \<open>
  \<open>LoadOrStore\<close> keeps an existing entry and reports it as loaded; \<open>LoadAndDelete\<close>
  removes the entry and reports whether there was one.
\<close>

definition storeEdgeNode :: "Manager \<Rightarrow> ptr \<Rightarrow> panic + Manager" where
  "storeEdgeNode m p =
     (case p of
        None \<Rightarrow> Inr m
      | Some a \<Rightarrow>
          (let nodeID = NodeID (heap m a) in
           case map_of (edgeNodes m) nodeID of
             Some old \<Rightarrow> Inr m
           | None \<Rightarrow>
               (case DistributeNodeWeight
                       (m\<lparr>edgeNodes := edgeNodes m @ [(nodeID, a)], Edges := Edges m + 1\<rparr>) p of
                  Inl e \<Rightarrow> Inl e
                | Inr m' \<Rightarrow> Inr (Pub m' p EventNodeOnline))))"

definition storeCandidateNode :: "Manager \<Rightarrow> ptr \<Rightarrow> panic + Manager" where
  "storeCandidateNode m p =
     (case p of
        None \<Rightarrow> Inr m
      | Some a \<Rightarrow>
          (let nodeID = NodeID (heap m a) in
           case map_of (candidateNodes m) nodeID of
             Some old \<Rightarrow> Inr m
           | None \<Rightarrow>
               (case DistributeNodeWeight
                       (m\<lparr>candidateNodes := candidateNodes m @ [(nodeID, a)],
                          Candidates := Candidates m + 1\<rparr>) p of
                  Inl e \<Rightarrow> Inl e
                | Inr m' \<Rightarrow> Inr (Pub m' p EventNodeOnline))))"

text \<open>
  \<open>deleteEdgeNode\<close> and \<open>deleteCandidateNode\<close>: repay, publish the offline event, then
  \<open>LoadAndDelete\<close> and, if an entry was loaded, the decrement.
\<close>

definition deleteEdgeNode :: "Manager \<Rightarrow> ptr \<Rightarrow> panic + Manager" where
  "deleteEdgeNode m p =
     (case RepayNodeWeight m p of
        Inl e \<Rightarrow> Inl e
      | Inr m1 \<Rightarrow>
          (let m2 = Pub m1 p EventNodeOffline in
           case p of
             None \<Rightarrow> Inl NilPointerDereference
           | Some a \<Rightarrow>
               (let nodeID = NodeID (heap m2 a) in
                case map_of (edgeNodes m2) nodeID of
                  None \<Rightarrow> Inr m2
                | Some old \<Rightarrow>
                    Inr (m2\<lparr>edgeNodes := filter (\<lambda>e. fst e \<noteq> nodeID) (edgeNodes m2),
                             Edges := Edges m2 - 1\<rparr>))))"

definition deleteCandidateNode :: "Manager \<Rightarrow> ptr \<Rightarrow> panic + Manager" where
  "deleteCandidateNode m p =
     (case RepayNodeWeight m p of
        Inl e \<Rightarrow> Inl e
      | Inr m1 \<Rightarrow>
          (let m2 = Pub m1 p EventNodeOffline in
           case p of
             None \<Rightarrow> Inl NilPointerDereference
           | Some a \<Rightarrow>
               (let nodeID = NodeID (heap m2 a) in
                case map_of (candidateNodes m2) nodeID of
                  None \<Rightarrow> Inr m2
                | Some old \<Rightarrow>
                    Inr (m2\<lparr>candidateNodes :=
                               filter (\<lambda>e. fst e \<noteq> nodeID) (candidateNodes m2),
                             Candidates := Candidates m2 - 1\<rparr>))))"

section \<open>The keepalive sweep\<close>

text \<open>
  \<open>startNodeKeepaliveTimer\<close> counts the ticks and saves on every \<open>saveInfoInterval\<close>-th;
  \<open>nodesKeepalive\<close> computes the cutoff from the current time.
\<close>

definition saveInfo :: "int \<Rightarrow> bool" where
  "saveInfo count = (count mod saveInfoInterval = 0)"

definition cutoff :: "int \<Rightarrow> int" where
  "cutoff now = Add now (- keepaliveTime)"

text \<open>
  The minutes added on a save tick: the constant expression
  \<open>int((saveInfoInterval * keepaliveTime) / time.Minute)\<close>, an integer division of
  durations.
\<close>

definition savedMinutes :: int where
  "savedMinutes = (saveInfoInterval * keepaliveTime) div Minute"

definition nodeKeepalive :: "Manager \<Rightarrow> ptr \<Rightarrow> int \<Rightarrow> bool \<Rightarrow> panic + (Manager \<times> bool)" where
  "nodeKeepalive m p t isSave =
     (case p of
        None \<Rightarrow> Inl NilPointerDereference
      | Some a \<Rightarrow>
          (let node = heap m a; lastTime = LastRequestTime node in
           if \<not> After lastTime t then
             (let m1 = ClientCloser m a in
              case (if Type node = NodeCandidate then deleteCandidateNode m1 p
                    else if Type node = NodeEdge then deleteEdgeNode m1 p
                    else Inr m1) of
                Inl e \<Rightarrow> Inl e
              | Inr m2 \<Rightarrow> Inr (m2, False))
           else if isSave then
             Inr (m\<lparr>heap := (heap m)
                      (a := node\<lparr>OnlineDuration := OnlineDuration node + word_of_int savedMinutes\<rparr>)\<rparr>,
                  True)
           else Inr (m, True)))"

section \<open>Redistribution\<close>

text \<open>
  One step of each \<open>Range\<close> callback of \<open>redistributeNodeSelectWeights\<close>, and the two
  passes: candidates first, then edges, after \<open>cleanWeights\<close>.
\<close>

definition redistributeCandidate :: "string \<times> addr \<Rightarrow> Manager \<Rightarrow> Manager" where
  "redistributeCandidate e m =
     (let node = heap m (snd e) in
      if IsAbnormal node then m
      else
        (let score = getNodeScoreLevel m (NodeID node);
             wNum = getWeightNum (weightMgr m) score;
             r = distributeCandidateWeight (weightMgr m) (NodeID node) wNum
         in m\<lparr>weightMgr := snd r,
               heap := (heap m)(snd e := node\<lparr>selectWeights := fst r\<rparr>)\<rparr>))"

definition redistributeEdge :: "string \<times> addr \<Rightarrow> Manager \<Rightarrow> Manager" where
  "redistributeEdge e m =
     (let node = heap m (snd e) in
      if IsAbnormal node then m
      else
        (let score = getNodeScoreLevel m (NodeID node);
             wNum = getWeightNum (weightMgr m) score;
             r = distributeEdgeWeight (weightMgr m) (NodeID node) wNum
         in m\<lparr>weightMgr := snd r,
               heap := (heap m)(snd e := node\<lparr>selectWeights := fst r\<rparr>)\<rparr>))"

definition redistributeNodeSelectWeights :: "Manager \<Rightarrow> Manager" where
  "redistributeNodeSelectWeights m =
     (let m1 = m\<lparr>weightMgr := cleanWeights (weightMgr m)\<rparr>;
          m2 = fold redistributeCandidate (candidateNodes m1) m1
      in fold redistributeEdge (edgeNodes m2) m2)"

section \<open>float64 arithmetic\<close>

text \<open>
  Go's \<open>float64\<close> is IEEE 754 binary64. A finite value is the rational it denotes, and each
  operation computes the exact result and rounds it once, to the nearest value with a 53-bit
  significand, ties to the even significand, with gradual underflow below the exponent -1022.
  \<open>ilog2 x\<close> is the binary exponent of a positive \<open>x\<close>, \<open>quantum x\<close> the spacing of the
  \<open>float64\<close> values around \<open>x\<close>, and \<open>f64 x\<close> the rounded value. Infinities and NaN are not
  modelled: the scoring functions divide by numbers of at least 1000 only, and none of their
  results leaves the range of \<open>float64\<close> for finite inputs. Go may fuse a product and a
  sum into one operation; the only candidate in this file, \<open>10 + min(..)*2\<close>, has an exact
  product, so that fusing does not change its result.
\<close>

definition ilog2 :: "rat \<Rightarrow> int" where
  "ilog2 x = (if 1 \<le> x then int (floorlog 2 (nat \<lfloor>x\<rfloor>)) - 1
              else - int (floorlog 2 (nat (\<lceil>1 / x\<rceil> - 1))))"

definition roundEven :: "rat \<Rightarrow> int" where
  "roundEven x =
     (let f = \<lfloor>x\<rfloor>; d = x - of_int f
      in if d < 1 / 2 then f else if 1 / 2 < d then f + 1 else if even f then f else f + 1)"

definition quantum :: "rat \<Rightarrow> rat" where
  "quantum x = 2 powi (max (ilog2 \<bar>x\<bar>) (- 1022) - 52)"

definition f64 :: "rat \<Rightarrow> float64" where
  "f64 x = (if x = 0 then 0 else of_int (roundEven (x / quantum x)) * quantum x)"

definition fadd :: "float64 \<Rightarrow> float64 \<Rightarrow> float64" where
  "fadd a b = f64 (a + b)"

definition fmul :: "float64 \<Rightarrow> float64 \<Rightarrow> float64" where
  "fmul a b = f64 (a * b)"

definition fdiv :: "float64 \<Rightarrow> float64 \<Rightarrow> float64" where
  "fdiv a b = f64 (a / b)"

text \<open>
  The conversion \<open>int(x)\<close> of a \<open>float64\<close> discards the fraction. (For a value outside
  the range of \<open>int\<close> Go leaves the result to the implementation; the points of a node
  are far inside the range unless its disk space is negative and beyond 10^20 bytes.)
\<close>

definition toInt :: "float64 \<Rightarrow> int" where
  "toInt x = (if 0 \<le> x then \<lfloor>x\<rfloor> else \<lceil>x\<rceil>)"

section \<open>Scoring\<close>

definition bytesToGB :: "float64 \<Rightarrow> float64" where
  "bytesToGB bytes = fdiv (fdiv (fdiv bytes 1024) 1024) 1024"

definition calculateMN :: "NatType \<Rightarrow> float64" where
  "calculateMN natType =
     (case natType of
        NatTypeFullCone \<Rightarrow> f64 (5 / 2)
      | NatTypeRestricted \<Rightarrow> 2
      | NatTypePortRestricted \<Rightarrow> f64 (3 / 2)
      | NatTypeSymmetric \<Rightarrow> 1
      | NatTypeUnknown \<Rightarrow> 0)"

text \<open>The file's own \<open>min\<close> and \<open>max\<close> on \<open>float64\<close>.\<close>

definition min_float64 :: "float64 \<Rightarrow> float64 \<Rightarrow> float64" where
  "min_float64 a b = (if a < b then a else b)"

definition max_float64 :: "float64 \<Rightarrow> float64 \<Rightarrow> float64" where
  "max_float64 a b = (if a > b then a else b)"

definition weighting :: "int \<Rightarrow> float64" where
  "weighting num =
     (if num \<le> 2000 then 2
      else if num \<le> 5000 then f64 (18 / 10)
      else if num \<le> 5000 then f64 (18 / 10)
      else if num \<le> 10000 then f64 (16 / 10)
      else if num \<le> 15000 then f64 (14 / 10)
      else if num \<le> 25000 then f64 (13 / 10)
      else if num \<le> 35000 then f64 (12 / 10)
      else if num \<le> 50000 then f64 (11 / 10)
      else 1)"

text \<open>
  Each loop of \<open>calculateMC\<close>, \<open>for k := 1.0; k <= min(i, 4); k++ { sum += k }\<close>, with
  the counter and the sum as \<open>float64\<close>. Not returning is \<open>None\<close>.
\<close>

partial_function (option) sumLoop :: "float64 \<Rightarrow> float64 \<Rightarrow> float64 \<Rightarrow> float64 option" where
  "sumLoop i k s =
     (if k \<le> min_float64 i 4 then sumLoop i (fadd k 1) (fadd s k) else Some s)"

definition calculateMC :: "float64 \<Rightarrow> float64 \<Rightarrow> float64 option" where
  "calculateMC i j =
     (case sumLoop i 1 0 of
        None \<Rightarrow> None
      | Some sum1 \<Rightarrow>
          (case sumLoop j 1 0 of
             None \<Rightarrow> None
           | Some sum2 \<Rightarrow> Some (fmul (fadd sum1 sum2) (f64 (7 / 10)))))"

definition calculateAndSavePoints :: "Manager \<Rightarrow> Node \<Rightarrow> int option" where
  "calculateAndSavePoints m n =
     (case calculateMC (f64 (of_int (CPUCores (Info n)))) (Memory (Info n)) of
        None \<Rightarrow> None
      | Some mc \<Rightarrow>
          (let mb = fadd 10 (fmul (min_float64 (fdiv (f64 (of_int (BandwidthUp n))) 100) 5) 2);
               mbn = fmul mb (calculateMN (NATType n));
               size = bytesToGB (DiskSpace (Info n));
               ms = fmul (min_float64 size 2000)
                      (fadd (f64 (1 / 100)) (fdiv 1 (max_float64 size 1000)));
               weight = weighting (sint (Edges m));
               online = 1;
               point = toInt (fmul (fmul (fadd (fadd mc mbn) ms) weight) online)
           in Some point))"

text \<open>
  The population weighting as the spec tabulates it: 2.0 up to 2000, 1.8 up to 5000, 1.6 up
  to 10000, 1.4 up to 15000, 1.3 up to 25000, 1.2 up to 35000, 1.1 up to 50000, else 1.0.
\<close>

definition populationWeighting :: "int \<Rightarrow> float64" where
  "populationWeighting p =
     (if p \<le> 2000 then f64 2
      else if p \<le> 5000 then f64 (18 / 10)
      else if p \<le> 10000 then f64 (16 / 10)
      else if p \<le> 15000 then f64 (14 / 10)
      else if p \<le> 25000 then f64 (13 / 10)
      else if p \<le> 35000 then f64 (12 / 10)
      else if p \<le> 50000 then f64 (11 / 10)
      else f64 1)"

text \<open>What one loop of \<open>calculateMC\<close> returns for the bound \<open>i\<close>: the sum of 1 .. min(i, 4).\<close>

definition loopSum :: "float64 \<Rightarrow> float64" where
  "loopSum i = (if i < 1 then 0 else if i < 2 then 1 else if i < 3 then 3 else if i < 4 then 6 else 10)"

section \<open>Auxiliary notions and example states\<close>

text \<open>
  The pool that \<open>DistributeNodeWeight\<close> and \<open>RepayNodeWeight\<close> use for a node of a given
  type.
\<close>

definition tierWeights :: "weightManager \<Rightarrow> NodeType \<Rightarrow> (nat \<times> string) list" where
  "tierWeights wm ty =
     (case ty of NodeCandidate \<Rightarrow> candidateWeights wm | NodeEdge \<Rightarrow> edgeWeights wm
      | NodeUnknown \<Rightarrow> [])"

text \<open>
  The total number of allocated slots, and the slot count due to a registered node: the
  count for its current score level, none while it is abnormal.
\<close>

definition slotTotal :: "weightManager \<Rightarrow> nat" where
  "slotTotal wm = length (edgeWeights wm) + length (candidateWeights wm)"

definition slotsDue :: "Manager \<Rightarrow> string \<times> addr \<Rightarrow> nat" where
  "slotsDue m e =
     (let node = heap m (snd e) in
      if IsAbnormal node then 0
      else getWeightNum (weightMgr m) (getNodeScoreLevel m (NodeID node)))"

text \<open>Calling an operation on the outcome of an earlier one.\<close>

definition thenCall ::
  "panic + Manager \<Rightarrow> (Manager \<Rightarrow> ptr \<Rightarrow> panic + Manager) \<Rightarrow> ptr \<Rightarrow> panic + Manager" where
  "thenCall r f p = (case r of Inl e \<Rightarrow> Inl e | Inr m \<Rightarrow> f m p)"

text \<open>
  Two managers agree when they have the same configuration, score levels and registries and
  their nodes have the same identities and the same abnormal status.
\<close>

definition agree :: "Manager \<Rightarrow> Manager \<Rightarrow> bool" where
  "agree m m' \<longleftrightarrow>
     scoreLevels m' = scoreLevels m \<and>
     levelSelectWeight (weightMgr m') = levelSelectWeight (weightMgr m) \<and>
     edgeNodes m' = edgeNodes m \<and> candidateNodes m' = candidateNodes m \<and>
     (\<forall>b. abnormal (heap m' b) = abnormal (heap m b) \<and> NodeID (heap m' b) = NodeID (heap m b))"

text \<open>
  An edge node last heard of at 70 s, and an empty manager whose configuration gives three
  slots to every score level. In \<open>exBoundary\<close> the node is registered and the keepalive
  tick at 100 s finds its timestamp equal to the cutoff; in \<open>exAlive\<close> the timestamp is one
  nanosecond later.
\<close>

definition exNode :: Node where
  "exNode = \<lparr>NodeID = ''n1'', Type = NodeEdge,
     Info = \<lparr>CPUCores = 4, Memory = 4, DiskSpace = 1610612736000\<rparr>,
     NATType = NatTypeFullCone, BandwidthUp = 200, OnlineDuration = 7,
     lastRequestTime = 70000000000, abnormal = False, selectWeights = []\<rparr>"

definition exManager :: Manager where
  "exManager = \<lparr>edgeNodes = [], candidateNodes = [], Edges = 0, Candidates = 0,
     weightMgr = \<lparr>edgeWeights = [], candidateWeights = [], levelSelectWeight = (\<lambda>l. 3)\<rparr>,
     heap = (\<lambda>a. exNode), scoreLevels = (\<lambda>i. 2), published = [], closed = []\<rparr>"

definition exBoundary :: Manager where
  "exBoundary = exManager\<lparr>edgeNodes := [(''n1'', 0)], Edges := 1\<rparr>"

definition exAliveNode :: Node where
  "exAliveNode = exNode\<lparr>lastRequestTime := 70000000001\<rparr>"

definition exAlive :: Manager where
  "exAlive = exManager\<lparr>edgeNodes := [(''n1'', 0)], Edges := 1, heap := (\<lambda>a. exAliveNode)\<rparr>"

text \<open>
  \<open>exJoined\<close> is \<open>exManager\<close> after the node has joined as an edge and holds the three
  slots allocated to it. \<open>exTwice\<close> is the outcome of joining and then calling
  \<open>DistributeNodeWeight\<close> once more for the same node.
\<close>

definition exJoined :: Manager where
  "exJoined = exManager\<lparr>edgeNodes := [(''n1'', 0)], Edges := 1,
     weightMgr := \<lparr>edgeWeights = [(0, ''n1''), (1, ''n1''), (2, ''n1'')],
        candidateWeights = [], levelSelectWeight = (\<lambda>l. 3)\<rparr>,
     heap := (\<lambda>a. exNode)(0 := exNode\<lparr>selectWeights := [0, 1, 2]\<rparr>),
     published := [(Some 0, EventNodeOnline)]\<rparr>"

text \<open>
  \<open>exShared\<close> is \<open>exJoined\<close> with two more slots in the edge pool, held by another
  node, and one slot in the candidate pool.
\<close>

definition exShared :: Manager where
  "exShared = exJoined\<lparr>weightMgr :=
     \<lparr>edgeWeights = [(0, ''n1''), (1, ''n1''), (2, ''n1''), (3, ''n2''), (4, ''n2'')],
      candidateWeights = [(0, ''c1'')], levelSelectWeight = (\<lambda>l. 3)\<rparr>\<rparr>"

definition exTwice :: "panic + Manager" where
  "exTwice = thenCall (storeEdgeNode exManager (Some 0)) DistributeNodeWeight (Some 0)"

text \<open>
  A fleet of one edge and two candidates, the second candidate abnormal, with pools left
  over from earlier allocations.
\<close>

definition exFleet :: Manager where
  "exFleet = exManager\<lparr>edgeNodes := [(''n1'', 0)], candidateNodes := [(''c1'', 1), (''c2'', 2)],
     Edges := 1, Candidates := 2,
     weightMgr := \<lparr>edgeWeights = [(0, ''n1''), (1, ''gone'')],
        candidateWeights = [(0, ''c2''), (1, ''c2''), (2, ''c1'')],
        levelSelectWeight = (\<lambda>l. 3)\<rparr>,
     heap := (\<lambda>a. exNode)
       (1 := exNode\<lparr>NodeID := ''c1'', Type := NodeCandidate\<rparr>,
        2 := exNode\<lparr>NodeID := ''c2'', Type := NodeCandidate, abnormal := True,
                     selectWeights := [0, 1]\<rparr>)\<rparr>"


text \<open>
  A manager with 3000 edges, and two nodes that differ in their disk space only: the two
  adjacent \<open>float64\<close> values 0x1.a0aaaaaaaaaa2p+40 and 0x1.a0aaaaaaaaaa3p+40 bytes.
\<close>

definition exBusy :: Manager where
  "exBusy = exManager\<lparr>Edges := 3000\<rparr>"

definition exDiskLow :: Node where
  "exDiskLow = exNode\<lparr>BandwidthUp := 300,
     Info := \<lparr>CPUCores = 4, Memory = 4, DiskSpace = 3665038759253329 / 2048\<rparr>\<rparr>"

definition exDiskHigh :: Node where
  "exDiskHigh = exDiskLow\<lparr>Info := (Info exDiskLow)\<lparr>DiskSpace := 7330077518506659 / 4096\<rparr>\<rparr>"

text \<open>A small and a large node, the large one with exactly 1000 GB of disk space.\<close>

definition exSmall :: Node where
  "exSmall = exNode\<lparr>BandwidthUp := 100,
     Info := \<lparr>CPUCores = 2, Memory = 2, DiskSpace = 500 * 2 ^ 30\<rparr>\<rparr>"

definition exLarge :: Node where
  "exLarge = exNode\<lparr>BandwidthUp := 200,
     Info := \<lparr>CPUCores = 4, Memory = 4, DiskSpace = 1000 * 2 ^ 30\<rparr>\<rparr>"

section \<open>Basic facts\<close>

lemmas collab_defs = IsAbnormal_def LastRequestTime_def After_def Add_def getNodeScoreLevel_def
  Pub_def ClientCloser_def

lemmas example_defs = exNode_def exManager_def exBoundary_def exAliveNode_def exAlive_def
  exJoined_def exFleet_def exShared_def

lemma savedMinutes_eq: "savedMinutes = 1"
  by (simp add: savedMinutes_def saveInfoInterval_def keepaliveTime_def Minute_def Second_def)

lemma RepayNodeWeight_Some:
  "\<exists>m'. RepayNodeWeight m (Some a) = Inr m' \<and> edgeNodes m' = edgeNodes m \<and>
     candidateNodes m' = candidateNodes m \<and> Edges m' = Edges m \<and> Candidates m' = Candidates m \<and>
     published m' = published m \<and> closed m' = closed m \<and>
     NodeID (heap m' b) = NodeID (heap m b) \<and> Type (heap m' b) = Type (heap m b) \<and>
     OnlineDuration (heap m' b) = OnlineDuration (heap m b)"
  by (simp add: RepayNodeWeight_def Let_def)

lemma deleteEdgeNode_Some:
  "\<exists>m'. deleteEdgeNode m (Some a) = Inr m' \<and> candidateNodes m' = candidateNodes m \<and>
     closed m' = closed m \<and> map_of (edgeNodes m') (NodeID (heap m a)) = None"
  using RepayNodeWeight_Some [of m a a]
  by (auto simp: deleteEdgeNode_def Let_def Pub_def map_of_eq_None_iff split: option.splits)

lemma deleteCandidateNode_Some:
  "\<exists>m'. deleteCandidateNode m (Some a) = Inr m' \<and> edgeNodes m' = edgeNodes m \<and>
     closed m' = closed m \<and> map_of (candidateNodes m') (NodeID (heap m a)) = None"
  using RepayNodeWeight_Some [of m a a]
  by (auto simp: deleteCandidateNode_def Let_def Pub_def map_of_eq_None_iff split: option.splits)

lemma repay_nothing: "repayEdgeWeight wm [] = wm" "repayCandidateWeight wm [] = wm"
  by (simp_all add: repayEdgeWeight_def repayCandidateWeight_def repayWeight_def)

lemmas ledger_defs = getWeightNum_def distributeWeight_def repayWeight_def
  distributeEdgeWeight_def distributeCandidateWeight_def repayEdgeWeight_def
  repayCandidateWeight_def cleanWeights_def

lemma DistributeNodeWeight_Some:
  "\<exists>m'. DistributeNodeWeight m (Some a) = Inr m' \<and> edgeNodes m' = edgeNodes m \<and>
     candidateNodes m' = candidateNodes m \<and> Edges m' = Edges m \<and> Candidates m' = Candidates m \<and>
     published m' = published m \<and> closed m' = closed m \<and>
     (\<forall>b. NodeID (heap m' b) = NodeID (heap m b)) \<and>
     slotTotal (weightMgr m') = slotTotal (weightMgr m) +
       (if IsAbnormal (heap m a) \<or> Type (heap m a) = NodeUnknown then 0
        else getWeightNum (weightMgr m) (getNodeScoreLevel m (NodeID (heap m a))))"
  by (cases "Type (heap m a)")
    (simp_all add: DistributeNodeWeight_def Let_def slotTotal_def ledger_defs)

lemma filter_absent_key: "map_of xs k = None \<Longrightarrow> filter (\<lambda>e. fst e \<noteq> k) xs = xs"
  by (induction xs) (auto split: if_splits)

lemma slotsOf_repayWeight:
  "set (slotsOf pool nodeID) \<subseteq> set hs \<Longrightarrow> slotsOf (repayWeight pool hs) nodeID = []"
  by (induction pool) (auto simp: slotsOf_def repayWeight_def)

lemma RepayNodeWeight_ledger:
  "\<exists>m1. RepayNodeWeight m (Some a) = Inr m1 \<and>
     tierWeights (weightMgr m1) (Type (heap m a))
       = repayWeight (tierWeights (weightMgr m) (Type (heap m a))) (selectWeights (heap m a)) \<and>
     (if Type (heap m a) = NodeUnknown then heap m1 = heap m
      else selectWeights (heap m1 a) = [])"
  by (cases "Type (heap m a)")
    (simp_all add: RepayNodeWeight_def Let_def tierWeights_def ledger_defs)

lemma freshHandle_gt: "e \<in> set pool \<Longrightarrow> fst e < freshHandle pool"
  by (induction pool) auto

lemma distributeWeight_pool:
  "snd (distributeWeight pool nodeID n)
     = pool @ map (\<lambda>h. (h, nodeID)) (fst (distributeWeight pool nodeID n))"
  by (simp add: distributeWeight_def Let_def)

lemma distributeWeight_length: "length (fst (distributeWeight pool nodeID n)) = n"
  by (simp add: distributeWeight_def Let_def)

lemma distributeWeight_distinct:
  assumes "distinct (map fst pool)"
  shows "distinct (map fst (snd (distributeWeight pool nodeID n)))"
proof -
  have "fst x < freshHandle pool" if "x \<in> set pool" for x
    using that by (rule freshHandle_gt)
  then have "fst ` set pool \<inter> {freshHandle pool ..< freshHandle pool + n} = {}"
    by fastforce
  with assms show ?thesis
    by (simp add: distributeWeight_def Let_def comp_def)
qed

lemma slotsOf_append: "slotsOf (p @ q) i = slotsOf p i @ slotsOf q i"
  by (simp add: slotsOf_def)

lemma slotsOf_allocated:
  "length (slotsOf (map (\<lambda>h. (h, nodeID)) hs) i) = (if nodeID = i then length hs else 0)"
  by (induction hs) (auto simp: slotsOf_def)

lemma agree_refl: "agree m m"
  by (simp add: agree_def)

lemma agree_trans: "agree m m' \<Longrightarrow> agree m' m'' \<Longrightarrow> agree m m''"
  by (simp add: agree_def)

lemma agree_slotsDue: "agree m m' \<Longrightarrow> slotsDue m' e = slotsDue m e"
  by (simp add: agree_def slotsDue_def Let_def IsAbnormal_def getWeightNum_def
      getNodeScoreLevel_def)

lemma agree_NodeID: "agree m m' \<Longrightarrow> NodeID (heap m' b) = NodeID (heap m b)"
  by (simp add: agree_def)

lemma redistributeCandidate_step:
  "agree m (redistributeCandidate e m)"
  "edgeWeights (weightMgr (redistributeCandidate e m)) = edgeWeights (weightMgr m)"
  "length (candidateWeights (weightMgr (redistributeCandidate e m)))
     = length (candidateWeights (weightMgr m)) + slotsDue m e"
  "length (slotsOf (candidateWeights (weightMgr (redistributeCandidate e m))) i)
     = length (slotsOf (candidateWeights (weightMgr m)) i)
       + (if NodeID (heap m (snd e)) = i then slotsDue m e else 0)"
  by (simp_all add: redistributeCandidate_def Let_def agree_def slotsDue_def
      distributeCandidateWeight_def distributeWeight_pool distributeWeight_length
      slotsOf_append slotsOf_allocated)

lemma redistributeCandidate_distinct:
  "distinct (map fst (candidateWeights (weightMgr m))) \<Longrightarrow>
     distinct (map fst (candidateWeights (weightMgr (redistributeCandidate e m))))"
  by (simp add: redistributeCandidate_def Let_def distributeCandidateWeight_def
      distributeWeight_distinct)

lemma redistributeEdge_step:
  "agree m (redistributeEdge e m)"
  "candidateWeights (weightMgr (redistributeEdge e m)) = candidateWeights (weightMgr m)"
  "length (edgeWeights (weightMgr (redistributeEdge e m)))
     = length (edgeWeights (weightMgr m)) + slotsDue m e"
  "length (slotsOf (edgeWeights (weightMgr (redistributeEdge e m))) i)
     = length (slotsOf (edgeWeights (weightMgr m)) i)
       + (if NodeID (heap m (snd e)) = i then slotsDue m e else 0)"
  by (simp_all add: redistributeEdge_def Let_def agree_def slotsDue_def
      distributeEdgeWeight_def distributeWeight_pool distributeWeight_length
      slotsOf_append slotsOf_allocated)

lemma redistributeEdge_distinct:
  "distinct (map fst (edgeWeights (weightMgr m))) \<Longrightarrow>
     distinct (map fst (edgeWeights (weightMgr (redistributeEdge e m))))"
  by (simp add: redistributeEdge_def Let_def distributeEdgeWeight_def
      distributeWeight_distinct)

lemma fold_redistributeCandidate:
  "agree m (fold redistributeCandidate xs m) \<and>
   edgeWeights (weightMgr (fold redistributeCandidate xs m)) = edgeWeights (weightMgr m) \<and>
   length (candidateWeights (weightMgr (fold redistributeCandidate xs m)))
     = length (candidateWeights (weightMgr m)) + sum_list (map (slotsDue m) xs) \<and>
   length (slotsOf (candidateWeights (weightMgr (fold redistributeCandidate xs m))) i)
     = length (slotsOf (candidateWeights (weightMgr m)) i)
       + sum_list (map (slotsDue m) (filter (\<lambda>e. NodeID (heap m (snd e)) = i) xs)) \<and>
   (distinct (map fst (candidateWeights (weightMgr m))) \<longrightarrow>
     distinct (map fst (candidateWeights (weightMgr (fold redistributeCandidate xs m)))))"
proof (induction xs arbitrary: m)
  case Nil
  show ?case by (simp add: agree_refl)
next
  case (Cons e xs)
  let ?m = "redistributeCandidate e m"
  note s = redistributeCandidate_step [where m = m and e = e]
  note d = redistributeCandidate_distinct [where m = m and e = e]
  have sd: "slotsDue ?m = slotsDue m"
    by (rule ext) (rule agree_slotsDue [OF s(1)])
  have fi: "filter (\<lambda>e. NodeID (heap ?m (snd e)) = i) xs
          = filter (\<lambda>e. NodeID (heap m (snd e)) = i) xs"
    by (simp add: agree_NodeID [OF s(1)])
  from Cons.IH [of ?m] s(1) s(2) s(3) s(4) [of i] d show ?case
    by (auto simp: sd fi intro: agree_trans)
qed

lemma fold_redistributeEdge:
  "agree m (fold redistributeEdge xs m) \<and>
   candidateWeights (weightMgr (fold redistributeEdge xs m)) = candidateWeights (weightMgr m) \<and>
   length (edgeWeights (weightMgr (fold redistributeEdge xs m)))
     = length (edgeWeights (weightMgr m)) + sum_list (map (slotsDue m) xs) \<and>
   length (slotsOf (edgeWeights (weightMgr (fold redistributeEdge xs m))) i)
     = length (slotsOf (edgeWeights (weightMgr m)) i)
       + sum_list (map (slotsDue m) (filter (\<lambda>e. NodeID (heap m (snd e)) = i) xs)) \<and>
   (distinct (map fst (edgeWeights (weightMgr m))) \<longrightarrow>
     distinct (map fst (edgeWeights (weightMgr (fold redistributeEdge xs m)))))"
proof (induction xs arbitrary: m)
  case Nil
  show ?case by (simp add: agree_refl)
next
  case (Cons e xs)
  let ?m = "redistributeEdge e m"
  note s = redistributeEdge_step [where m = m and e = e]
  note d = redistributeEdge_distinct [where m = m and e = e]
  have sd: "slotsDue ?m = slotsDue m"
    by (rule ext) (rule agree_slotsDue [OF s(1)])
  have fi: "filter (\<lambda>e. NodeID (heap ?m (snd e)) = i) xs
          = filter (\<lambda>e. NodeID (heap m (snd e)) = i) xs"
    by (simp add: agree_NodeID [OF s(1)])
  from Cons.IH [of ?m] s(1) s(2) s(3) s(4) [of i] d show ?case
    by (auto simp: sd fi intro: agree_trans)
qed

lemma sum_list_zero: "(\<And>x. x \<in> set xs \<Longrightarrow> f x = 0) \<Longrightarrow> sum_list (map f xs) = (0::nat)"
  by (induction xs) auto

section \<open>The keepalive boundary\<close>

text \<open>
  Claim C1, as amended. For every node examined by a keepalive tick with cutoff
  \<open>t = now - keepaliveTime\<close>, \<open>nodeKeepalive\<close> returns true exactly when the node's
  last-contact timestamp is strictly after \<open>t\<close>. Then the registries and the list of closed
  clients are unchanged. Otherwise, and in particular when the timestamp equals \<open>t\<close>, it
  returns false, \<open>ClientCloser\<close> has been called and the node's identity is no longer in the
  map of its tier.
\<close>

theorem nodeKeepalive_boundary:
  "\<exists>m'. nodeKeepalive m (Some a) (cutoff now) isSave
          = Inr (m', cutoff now < LastRequestTime (heap m a)) \<and>
     (if cutoff now < LastRequestTime (heap m a)
      then edgeNodes m' = edgeNodes m \<and> candidateNodes m' = candidateNodes m \<and>
           closed m' = closed m
      else closed m' = closed m @ [a] \<and>
           (case Type (heap m a) of
              NodeEdge \<Rightarrow> map_of (edgeNodes m') (NodeID (heap m a)) = None
            | NodeCandidate \<Rightarrow> map_of (candidateNodes m') (NodeID (heap m a)) = None
            | NodeUnknown \<Rightarrow> edgeNodes m' = edgeNodes m \<and> candidateNodes m' = candidateNodes m))"
proof (cases "cutoff now < LastRequestTime (heap m a)")
  case True
  then show ?thesis
    by (simp add: nodeKeepalive_def Let_def After_def)
next
  case False
  let ?m1 = "ClientCloser m a"
  have h: "heap ?m1 = heap m" "closed ?m1 = closed m @ [a]"
    "edgeNodes ?m1 = edgeNodes m" "candidateNodes ?m1 = candidateNodes m"
    by (simp_all add: ClientCloser_def)
  show ?thesis
  proof (cases "Type (heap m a)")
    case NodeUnknown
    with False h show ?thesis
      by (simp add: nodeKeepalive_def Let_def After_def)
  next
    case NodeEdge
    from deleteEdgeNode_Some [of ?m1 a] obtain m' where
      "deleteEdgeNode ?m1 (Some a) = Inr m'" "closed m' = closed ?m1"
      "map_of (edgeNodes m') (NodeID (heap ?m1 a)) = None" by blast
    with False NodeEdge h show ?thesis
      by (simp add: nodeKeepalive_def Let_def After_def)
  next
    case NodeCandidate
    from deleteCandidateNode_Some [of ?m1 a] obtain m' where
      "deleteCandidateNode ?m1 (Some a) = Inr m'" "closed m' = closed ?m1"
      "map_of (candidateNodes m') (NodeID (heap ?m1 a)) = None" by blast
    with False NodeCandidate h show ?thesis
      by (simp add: nodeKeepalive_def Let_def After_def)
  qed
qed

text \<open>The theorem at the registered node of \<open>exBoundary\<close> and the tick at 100 s.\<close>

theorem nodeKeepalive_boundary_witness:
  "\<exists>m'. nodeKeepalive exBoundary (Some 0) (cutoff 100000000000) False = Inr (m', False) \<and>
     closed m' = [0] \<and> map_of (edgeNodes m') ''n1'' = None"
  using nodeKeepalive_boundary [of exBoundary 0 100000000000 False]
  by (simp add: example_defs collab_defs cutoff_def keepaliveTime_def Second_def)

text \<open>
  Claim C1 as stated fails: the node of \<open>exBoundary\<close> has a last-contact timestamp equal to
  the cutoff, and \<open>nodeKeepalive\<close> returns false and removes it from the edge map.
\<close>

theorem equal_timestamp_counterexample:
  "LastRequestTime (heap exBoundary 0) = cutoff 100000000000 \<and>
   map_of (edgeNodes exBoundary) ''n1'' = Some 0 \<and>
   map_sum id snd (nodeKeepalive exBoundary (Some 0) (cutoff 100000000000) False) = Inr False \<and>
   map_sum id (edgeNodes \<circ> fst) (nodeKeepalive exBoundary (Some 0) (cutoff 100000000000) False)
     = Inr [] \<and>
   map_sum id (closed \<circ> fst) (nodeKeepalive exBoundary (Some 0) (cutoff 100000000000) False)
     = Inr [0]"
  by (simp add: nodeKeepalive_def deleteEdgeNode_def RepayNodeWeight_def Let_def example_defs
      collab_defs cutoff_def keepaliveTime_def Second_def)

section \<open>Online duration\<close>

text \<open>
  Claim C9, as amended. A node classified alive accrues, on a save tick (every second
  keepalive tick), exactly \<open>int((saveInfoInterval * keepaliveTime) / time.Minute)\<close> = 1
  minute of online duration, which is the time of the two 30-second periods since the last
  save tick; on any other tick its online duration is unchanged.
\<close>

theorem alive_node_accrues:
  assumes "After (LastRequestTime (heap m a)) t"
  shows "\<exists>m'. nodeKeepalive m (Some a) t (saveInfo count) = Inr (m', True) \<and>
           OnlineDuration (heap m' a)
             = OnlineDuration (heap m a) + (if count mod 2 = 0 then 1 else 0) \<and>
           savedMinutes = 1 \<and> savedMinutes * Minute = saveInfoInterval * keepaliveTime"
  using assms
  by (simp add: nodeKeepalive_def Let_def saveInfo_def saveInfoInterval_def savedMinutes_eq)
    (simp add: keepaliveTime_def Minute_def)

theorem alive_node_accrues_witness:
  "After (LastRequestTime (heap exAlive 0)) (cutoff 100000000000) \<and>
   (\<exists>m'. nodeKeepalive exAlive (Some 0) (cutoff 100000000000) (saveInfo 4) = Inr (m', True) \<and>
      OnlineDuration (heap m' 0) = 8)"
proof -
  have h: "After (LastRequestTime (heap exAlive 0)) (cutoff 100000000000)"
    by (simp add: example_defs collab_defs cutoff_def keepaliveTime_def Second_def)
  have o: "OnlineDuration (heap exAlive 0) = 7"
    by (simp add: example_defs)
  show ?thesis
    using h alive_node_accrues [OF h, of 4] by (auto simp: o)
qed

text \<open>
  Claim C9 as stated fails: on the save tick 2 the alive node of \<open>exAlive\<close> goes from 7 to 8
  minutes. The minute it accrues is not the 30-second period, and it is not the period
  counted in whole minutes (which is 0).
\<close>

theorem period_minutes_counterexample:
  "saveInfo 2 \<and>
   map_sum id snd (nodeKeepalive exAlive (Some 0) (cutoff 100000000000) (saveInfo 2)) = Inr True \<and>
   OnlineDuration (heap exAlive 0) = 7 \<and>
   map_sum id (\<lambda>r. OnlineDuration (heap (fst r) 0))
     (nodeKeepalive exAlive (Some 0) (cutoff 100000000000) (saveInfo 2)) = Inr 8 \<and>
   (8 - 7) * Minute \<noteq> keepaliveTime \<and> 8 - 7 \<noteq> keepaliveTime div Minute"
  by (simp add: nodeKeepalive_def example_defs collab_defs Let_def
      cutoff_def keepaliveTime_def Second_def Minute_def saveInfo_def saveInfoInterval_def
      savedMinutes_eq)

section \<open>Nil pointers\<close>

text \<open>
  Claim C8 holds for the two store operations only. On a nil node \<open>storeEdgeNode\<close> and
  \<open>storeCandidateNode\<close> return at their guard and change nothing, while
  \<open>deleteEdgeNode\<close>, \<open>deleteCandidateNode\<close>, \<open>RepayNodeWeight\<close> and
  \<open>DistributeNodeWeight\<close> have no guard and dereference the pointer.
\<close>

theorem nil_node_operations:
  "storeEdgeNode m None = Inr m \<and> storeCandidateNode m None = Inr m \<and>
   deleteEdgeNode m None = Inl NilPointerDereference \<and>
   deleteCandidateNode m None = Inl NilPointerDereference \<and>
   RepayNodeWeight m None = Inl NilPointerDereference \<and>
   DistributeNodeWeight m None = Inl NilPointerDereference"
  by (simp add: storeEdgeNode_def storeCandidateNode_def deleteEdgeNode_def
      deleteCandidateNode_def RepayNodeWeight_def DistributeNodeWeight_def)

section \<open>Repayment\<close>

text \<open>
  Claim C10. For every node of edge or candidate type, \<open>RepayNodeWeight\<close> removes from the
  pool of the node's type exactly the slots whose handles the node holds, so that none of
  these handles is left in the pool, and leaves the node without slot handles. A second
  \<open>RepayNodeWeight\<close> then repays that empty list: it removes nothing further from the pools
  and changes nothing else.
\<close>

theorem repay_idempotent:
  assumes "Type (heap m a) = NodeEdge \<or> Type (heap m a) = NodeCandidate"
  shows "\<exists>m1. RepayNodeWeight m (Some a) = Inr m1 \<and>
           tierWeights (weightMgr m1) (Type (heap m a))
             = repayWeight (tierWeights (weightMgr m) (Type (heap m a)))
                 (selectWeights (heap m a)) \<and>
           fst ` set (tierWeights (weightMgr m1) (Type (heap m a)))
             \<inter> set (selectWeights (heap m a)) = {} \<and>
           selectWeights (heap m1 a) = [] \<and>
           RepayNodeWeight m1 (Some a) = Inr m1 \<and>
           repayEdgeWeight (weightMgr m1) (selectWeights (heap m1 a)) = weightMgr m1 \<and>
           repayCandidateWeight (weightMgr m1) (selectWeights (heap m1 a)) = weightMgr m1"
proof -
  from RepayNodeWeight_ledger [of m a] assms obtain m1 where
    r: "RepayNodeWeight m (Some a) = Inr m1" and
    l: "tierWeights (weightMgr m1) (Type (heap m a))
       = repayWeight (tierWeights (weightMgr m) (Type (heap m a))) (selectWeights (heap m a))" and
    h: "selectWeights (heap m1 a) = []"
    by auto
  have t: "Type (heap m1 a) = Type (heap m a)"
    using RepayNodeWeight_Some [of m a a] r by auto
  have d: "fst ` set (tierWeights (weightMgr m1) (Type (heap m a)))
             \<inter> set (selectWeights (heap m a)) = {}"
    by (auto simp: l repayWeight_def)
  have n: "(heap m1 a)\<lparr>selectWeights := []\<rparr> = heap m1 a"
    using h by (cases "heap m1 a") simp
  have again: "RepayNodeWeight m1 (Some a) = Inr m1"
    using assms t h by (auto simp: RepayNodeWeight_def Let_def repay_nothing n)
  from r l d h again show ?thesis
    by (simp add: repay_nothing)
qed

text \<open>
  In \<open>exShared\<close> the node holds the handles 0, 1 and 2 of the five slots in the edge pool:
  repayment leaves the two slots of the other node.
\<close>

theorem repay_idempotent_witness:
  "(Type (heap exShared 0) = NodeEdge \<or> Type (heap exShared 0) = NodeCandidate) \<and>
   selectWeights (heap exShared 0) = [0, 1, 2] \<and>
   (\<exists>m1. RepayNodeWeight exShared (Some 0) = Inr m1 \<and>
      edgeWeights (weightMgr m1) = [(3, ''n2''), (4, ''n2'')] \<and>
      selectWeights (heap m1 0) = [] \<and>
      RepayNodeWeight m1 (Some 0) = Inr m1)"
proof -
  have h: "Type (heap exShared 0) = NodeEdge \<or> Type (heap exShared 0) = NodeCandidate"
    by (simp add: example_defs)
  have v: "Type (heap exShared 0) = NodeEdge" "selectWeights (heap exShared 0) = [0, 1, 2]"
    "edgeWeights (weightMgr exShared)
       = [(0, ''n1''), (1, ''n1''), (2, ''n1''), (3, ''n2''), (4, ''n2'')]"
    by (simp_all add: example_defs)
  from repay_idempotent [OF h] h show ?thesis
    by (auto simp: v tierWeights_def repayWeight_def)
qed

section \<open>Join\<close>

text \<open>
  Claim C3. Let a node's identity be absent from a tier's map. Then storing the node
  registers it, increments the tier's count by one, runs the allocation once (the ledger
  grows by the slot count of the node's score level, or by nothing if the node is abnormal or
  of no tier) and publishes one online event; and storing again any node of the same
  identity returns the same manager: map, counts, ledger and published events are unchanged.
\<close>

theorem store_idempotent:
  assumes same: "NodeID (heap m b) = NodeID (heap m a)"
  shows
    "(map_of (edgeNodes m) (NodeID (heap m a)) = None \<longrightarrow>
        (\<exists>m1. storeEdgeNode m (Some a) = Inr m1 \<and>
           Edges m1 = Edges m + 1 \<and> Candidates m1 = Candidates m \<and>
           map_of (edgeNodes m1) (NodeID (heap m a)) = Some a \<and>
           published m1 = published m @ [(Some a, EventNodeOnline)] \<and>
           slotTotal (weightMgr m1) = slotTotal (weightMgr m) +
             (if IsAbnormal (heap m a) \<or> Type (heap m a) = NodeUnknown then 0
              else getWeightNum (weightMgr m) (getNodeScoreLevel m (NodeID (heap m a)))) \<and>
           storeEdgeNode m1 (Some b) = Inr m1)) \<and>
     (map_of (candidateNodes m) (NodeID (heap m a)) = None \<longrightarrow>
        (\<exists>m1. storeCandidateNode m (Some a) = Inr m1 \<and>
           Candidates m1 = Candidates m + 1 \<and> Edges m1 = Edges m \<and>
           map_of (candidateNodes m1) (NodeID (heap m a)) = Some a \<and>
           published m1 = published m @ [(Some a, EventNodeOnline)] \<and>
           slotTotal (weightMgr m1) = slotTotal (weightMgr m) +
             (if IsAbnormal (heap m a) \<or> Type (heap m a) = NodeUnknown then 0
              else getWeightNum (weightMgr m) (getNodeScoreLevel m (NodeID (heap m a)))) \<and>
           storeCandidateNode m1 (Some b) = Inr m1))"
proof (intro conjI impI)
  assume fresh: "map_of (edgeNodes m) (NodeID (heap m a)) = None"
  let ?m0 = "m\<lparr>edgeNodes := edgeNodes m @ [(NodeID (heap m a), a)], Edges := Edges m + 1\<rparr>"
  from DistributeNodeWeight_Some [of ?m0 a] obtain md where
    d: "DistributeNodeWeight ?m0 (Some a) = Inr md" and
    e: "edgeNodes md = edgeNodes ?m0" "Edges md = Edges ?m0" "Candidates md = Candidates ?m0"
       "published md = published ?m0" "\<forall>b. NodeID (heap md b) = NodeID (heap ?m0 b)" and
    s: "slotTotal (weightMgr md) = slotTotal (weightMgr ?m0) +
       (if IsAbnormal (heap ?m0 a) \<or> Type (heap ?m0 a) = NodeUnknown then 0
        else getWeightNum (weightMgr ?m0) (getNodeScoreLevel ?m0 (NodeID (heap ?m0 a))))"
    by blast
  let ?m1 = "Pub md (Some a) EventNodeOnline"
  have st: "storeEdgeNode m (Some a) = Inr ?m1"
    using fresh d by (simp add: storeEdgeNode_def Let_def)
  have reg: "map_of (edgeNodes ?m1) (NodeID (heap m a)) = Some a"
    using e fresh by (simp add: Pub_def map_add_Some_iff)
  have idb: "NodeID (heap ?m1 b) = NodeID (heap m a)"
    using e same by (simp add: Pub_def)
  have again: "storeEdgeNode ?m1 (Some b) = Inr ?m1"
    using reg idb by (simp add: storeEdgeNode_def Let_def)
  show "\<exists>m1. storeEdgeNode m (Some a) = Inr m1 \<and>
           Edges m1 = Edges m + 1 \<and> Candidates m1 = Candidates m \<and>
           map_of (edgeNodes m1) (NodeID (heap m a)) = Some a \<and>
           published m1 = published m @ [(Some a, EventNodeOnline)] \<and>
           slotTotal (weightMgr m1) = slotTotal (weightMgr m) +
             (if IsAbnormal (heap m a) \<or> Type (heap m a) = NodeUnknown then 0
              else getWeightNum (weightMgr m) (getNodeScoreLevel m (NodeID (heap m a)))) \<and>
           storeEdgeNode m1 (Some b) = Inr m1"
    using st reg again e s by (intro exI [of _ ?m1]) (simp add: Pub_def getNodeScoreLevel_def)
next
  assume fresh: "map_of (candidateNodes m) (NodeID (heap m a)) = None"
  let ?m0 = "m\<lparr>candidateNodes := candidateNodes m @ [(NodeID (heap m a), a)],
                Candidates := Candidates m + 1\<rparr>"
  from DistributeNodeWeight_Some [of ?m0 a] obtain md where
    d: "DistributeNodeWeight ?m0 (Some a) = Inr md" and
    e: "candidateNodes md = candidateNodes ?m0" "Edges md = Edges ?m0"
       "Candidates md = Candidates ?m0"
       "published md = published ?m0" "\<forall>b. NodeID (heap md b) = NodeID (heap ?m0 b)" and
    s: "slotTotal (weightMgr md) = slotTotal (weightMgr ?m0) +
       (if IsAbnormal (heap ?m0 a) \<or> Type (heap ?m0 a) = NodeUnknown then 0
        else getWeightNum (weightMgr ?m0) (getNodeScoreLevel ?m0 (NodeID (heap ?m0 a))))"
    by blast
  let ?m1 = "Pub md (Some a) EventNodeOnline"
  have st: "storeCandidateNode m (Some a) = Inr ?m1"
    using fresh d by (simp add: storeCandidateNode_def Let_def)
  have reg: "map_of (candidateNodes ?m1) (NodeID (heap m a)) = Some a"
    using e fresh by (simp add: Pub_def map_add_Some_iff)
  have idb: "NodeID (heap ?m1 b) = NodeID (heap m a)"
    using e same by (simp add: Pub_def)
  have again: "storeCandidateNode ?m1 (Some b) = Inr ?m1"
    using reg idb by (simp add: storeCandidateNode_def Let_def)
  show "\<exists>m1. storeCandidateNode m (Some a) = Inr m1 \<and>
           Candidates m1 = Candidates m + 1 \<and> Edges m1 = Edges m \<and>
           map_of (candidateNodes m1) (NodeID (heap m a)) = Some a \<and>
           published m1 = published m @ [(Some a, EventNodeOnline)] \<and>
           slotTotal (weightMgr m1) = slotTotal (weightMgr m) +
             (if IsAbnormal (heap m a) \<or> Type (heap m a) = NodeUnknown then 0
              else getWeightNum (weightMgr m) (getNodeScoreLevel m (NodeID (heap m a)))) \<and>
           storeCandidateNode m1 (Some b) = Inr m1"
    using st reg again e s by (intro exI [of _ ?m1]) (simp add: Pub_def getNodeScoreLevel_def)
qed


theorem store_idempotent_witness:
  "NodeID (heap exManager 2) = NodeID (heap exManager 0) \<and>
   map_of (edgeNodes exManager) (NodeID (heap exManager 0)) = None \<and>
   (\<exists>m1. storeEdgeNode exManager (Some 0) = Inr m1 \<and> Edges m1 = 1 \<and>
      published m1 = [(Some 0, EventNodeOnline)] \<and> slotTotal (weightMgr m1) = 3 \<and>
      storeEdgeNode m1 (Some 2) = Inr m1) \<and>
   map_of (candidateNodes exManager) (NodeID (heap exManager 0)) = None \<and>
   (\<exists>m1. storeCandidateNode exManager (Some 0) = Inr m1 \<and> Candidates m1 = 1 \<and>
      published m1 = [(Some 0, EventNodeOnline)] \<and> slotTotal (weightMgr m1) = 3 \<and>
      storeCandidateNode m1 (Some 2) = Inr m1)"
proof -
  have h: "NodeID (heap exManager 2) = NodeID (heap exManager 0)"
    "map_of (edgeNodes exManager) (NodeID (heap exManager 0)) = None"
    "map_of (candidateNodes exManager) (NodeID (heap exManager 0)) = None"
    by (simp_all add: example_defs)
  have v: "Edges exManager = 0" "Candidates exManager = 0" "published exManager = []"
    "slotTotal (weightMgr exManager) = 0" "\<not> IsAbnormal (heap exManager 0)"
    "Type (heap exManager 0) = NodeEdge"
    "getWeightNum (weightMgr exManager) (getNodeScoreLevel exManager (NodeID (heap exManager 0))) = 3"
    by (simp_all add: example_defs slotTotal_def collab_defs getWeightNum_def)
  from store_idempotent [OF h(1)] h(2) h(3) show ?thesis
    by (simp add: v h) blast
qed

section \<open>Leave\<close>

text \<open>
  Claim C2, as amended. For every node, present in its tier map or not, \<open>deleteEdgeNode\<close>
  and \<open>deleteCandidateNode\<close> first repay the slot handles held by the node (from the pool of
  the node's type, leaving the node without handles) and publish the offline event, and
  only then remove the map entry. The repayment does not depend on the entry being there;
  the count is decremented only if it was. After the call the node's identity holds no slot
  in that pool, provided every slot the pool held for the identity was among the handles
  held by the node.
\<close>

theorem delete_repays_then_removes:
  "\<exists>m1. RepayNodeWeight m (Some a) = Inr m1 \<and>
     tierWeights (weightMgr m1) (Type (heap m a))
       = repayWeight (tierWeights (weightMgr m) (Type (heap m a))) (selectWeights (heap m a)) \<and>
     (if Type (heap m a) = NodeUnknown then heap m1 = heap m
      else selectWeights (heap m1 a) = []) \<and>
     (set (slotsOf (tierWeights (weightMgr m) (Type (heap m a))) (NodeID (heap m a)))
        \<subseteq> set (selectWeights (heap m a)) \<longrightarrow>
      slotsOf (tierWeights (weightMgr m1) (Type (heap m a))) (NodeID (heap m a)) = []) \<and>
     (\<exists>m'. deleteEdgeNode m (Some a) = Inr m' \<and>
        weightMgr m' = weightMgr m1 \<and> heap m' = heap m1 \<and>
        published m' = published m @ [(Some a, EventNodeOffline)] \<and>
        edgeNodes m' = filter (\<lambda>e. fst e \<noteq> NodeID (heap m a)) (edgeNodes m) \<and>
        Edges m' = (if map_of (edgeNodes m) (NodeID (heap m a)) = None then Edges m
                    else Edges m - 1) \<and>
        candidateNodes m' = candidateNodes m \<and> Candidates m' = Candidates m) \<and>
     (\<exists>m'. deleteCandidateNode m (Some a) = Inr m' \<and>
        weightMgr m' = weightMgr m1 \<and> heap m' = heap m1 \<and>
        published m' = published m @ [(Some a, EventNodeOffline)] \<and>
        candidateNodes m' = filter (\<lambda>e. fst e \<noteq> NodeID (heap m a)) (candidateNodes m) \<and>
        Candidates m' = (if map_of (candidateNodes m) (NodeID (heap m a)) = None
                         then Candidates m else Candidates m - 1) \<and>
        edgeNodes m' = edgeNodes m \<and> Edges m' = Edges m)"
proof -
  from RepayNodeWeight_ledger [of m a] obtain m1 where
    r: "RepayNodeWeight m (Some a) = Inr m1" and
    l: "tierWeights (weightMgr m1) (Type (heap m a))
       = repayWeight (tierWeights (weightMgr m) (Type (heap m a))) (selectWeights (heap m a))" and
    h: "if Type (heap m a) = NodeUnknown then heap m1 = heap m
        else selectWeights (heap m1 a) = []"
    by blast
  from RepayNodeWeight_Some [of m a a] r have
    k: "edgeNodes m1 = edgeNodes m" "candidateNodes m1 = candidateNodes m" "Edges m1 = Edges m"
       "Candidates m1 = Candidates m" "published m1 = published m"
       "NodeID (heap m1 a) = NodeID (heap m a)"
    by auto
  have z: "set (slotsOf (tierWeights (weightMgr m) (Type (heap m a))) (NodeID (heap m a)))
        \<subseteq> set (selectWeights (heap m a)) \<longrightarrow>
      slotsOf (tierWeights (weightMgr m1) (Type (heap m a))) (NodeID (heap m a)) = []"
    by (simp add: l slotsOf_repayWeight)
  have e: "\<exists>m'. deleteEdgeNode m (Some a) = Inr m' \<and>
        weightMgr m' = weightMgr m1 \<and> heap m' = heap m1 \<and>
        published m' = published m @ [(Some a, EventNodeOffline)] \<and>
        edgeNodes m' = filter (\<lambda>e. fst e \<noteq> NodeID (heap m a)) (edgeNodes m) \<and>
        Edges m' = (if map_of (edgeNodes m) (NodeID (heap m a)) = None then Edges m
                    else Edges m - 1) \<and>
        candidateNodes m' = candidateNodes m \<and> Candidates m' = Candidates m"
    using r k
    by (cases "map_of (edgeNodes m) (NodeID (heap m a))")
      (simp_all add: deleteEdgeNode_def Let_def Pub_def filter_absent_key)
  have c: "\<exists>m'. deleteCandidateNode m (Some a) = Inr m' \<and>
        weightMgr m' = weightMgr m1 \<and> heap m' = heap m1 \<and>
        published m' = published m @ [(Some a, EventNodeOffline)] \<and>
        candidateNodes m' = filter (\<lambda>e. fst e \<noteq> NodeID (heap m a)) (candidateNodes m) \<and>
        Candidates m' = (if map_of (candidateNodes m) (NodeID (heap m a)) = None
                         then Candidates m else Candidates m - 1) \<and>
        edgeNodes m' = edgeNodes m \<and> Edges m' = Edges m"
    using r k
    by (cases "map_of (candidateNodes m) (NodeID (heap m a))")
      (simp_all add: deleteCandidateNode_def Let_def Pub_def filter_absent_key)
  from r l h z e c show ?thesis by blast
qed


theorem delete_repays_then_removes_witness:
  "set (slotsOf (tierWeights (weightMgr exJoined) (Type (heap exJoined 0)))
          (NodeID (heap exJoined 0))) \<subseteq> set (selectWeights (heap exJoined 0)) \<and>
   (\<exists>m1. RepayNodeWeight exJoined (Some 0) = Inr m1 \<and>
      slotsOf (edgeWeights (weightMgr m1)) ''n1'' = [] \<and>
      (\<exists>m'. deleteEdgeNode exJoined (Some 0) = Inr m' \<and> weightMgr m' = weightMgr m1 \<and>
         edgeNodes m' = [] \<and> Edges m' = 0))"
proof -
  have h: "set (slotsOf (tierWeights (weightMgr exJoined) (Type (heap exJoined 0)))
          (NodeID (heap exJoined 0))) \<subseteq> set (selectWeights (heap exJoined 0))"
    by (simp add: example_defs tierWeights_def slotsOf_def)
  have v: "Type (heap exJoined 0) = NodeEdge" "NodeID (heap exJoined 0) = ''n1''"
    "edgeNodes exJoined = [(''n1'', 0)]" "Edges exJoined = 1"
    by (simp_all add: example_defs)
  from delete_repays_then_removes [of exJoined 0] h show ?thesis
    by (auto simp: v tierWeights_def)
qed

text \<open>
  Claim C2 as stated fails. The node joins as an edge and \<open>DistributeNodeWeight\<close> is called
  for it once more, which replaces its handles by three new ones. \<open>deleteEdgeNode\<close> then
  repays the handles the node holds, and the ledger keeps the first three slots under the
  node's identity.
\<close>

theorem orphaned_slots_counterexample:
  "map_sum id (\<lambda>m. slotsOf (edgeWeights (weightMgr m)) ''n1'')
     (thenCall exTwice deleteEdgeNode (Some 0)) = Inr [0, 1, 2]"
  by (simp add: exTwice_def thenCall_def storeEdgeNode_def DistributeNodeWeight_def
      deleteEdgeNode_def RepayNodeWeight_def Let_def
      example_defs collab_defs ledger_defs slotsOf_def upt_rec eval_nat_numeral)


section \<open>Redistribution\<close>

text \<open>
  What \<open>redistributeNodeSelectWeights\<close> does to the ledger. After the run the total number
  of allocated slots is the sum, over the registered candidates and edges, of the slot count
  for the node's current score level, counting nothing for abnormal nodes. The same holds for
  the slots of each identity in each pool, so the pools hold no slot for an identity
  registered only by abnormal nodes. The handles of each pool are distinct, and the pools
  after the run do not depend on what they held before it.
\<close>

theorem redistribute_full_reset:
  "slotTotal (weightMgr (redistributeNodeSelectWeights m))
     = sum_list (map (slotsDue m) (candidateNodes m)) + sum_list (map (slotsDue m) (edgeNodes m)) \<and>
   length (slotsOf (candidateWeights (weightMgr (redistributeNodeSelectWeights m))) i)
     = sum_list (map (slotsDue m) (filter (\<lambda>e. NodeID (heap m (snd e)) = i) (candidateNodes m))) \<and>
   length (slotsOf (edgeWeights (weightMgr (redistributeNodeSelectWeights m))) i)
     = sum_list (map (slotsDue m) (filter (\<lambda>e. NodeID (heap m (snd e)) = i) (edgeNodes m))) \<and>
   ((\<forall>e \<in> set (candidateNodes m). NodeID (heap m (snd e)) = i \<longrightarrow> IsAbnormal (heap m (snd e)))
      \<longrightarrow> slotsOf (candidateWeights (weightMgr (redistributeNodeSelectWeights m))) i = []) \<and>
   ((\<forall>e \<in> set (edgeNodes m). NodeID (heap m (snd e)) = i \<longrightarrow> IsAbnormal (heap m (snd e)))
      \<longrightarrow> slotsOf (edgeWeights (weightMgr (redistributeNodeSelectWeights m))) i = []) \<and>
   distinct (map fst (candidateWeights (weightMgr (redistributeNodeSelectWeights m)))) \<and>
   distinct (map fst (edgeWeights (weightMgr (redistributeNodeSelectWeights m)))) \<and>
   redistributeNodeSelectWeights
       (m\<lparr>weightMgr := (weightMgr m)\<lparr>edgeWeights := p, candidateWeights := q\<rparr>\<rparr>)
     = redistributeNodeSelectWeights m"
proof -
  define m1 where "m1 = m\<lparr>weightMgr := cleanWeights (weightMgr m)\<rparr>"
  define m2 where "m2 = fold redistributeCandidate (candidateNodes m1) m1"
  define m3 where "m3 = fold redistributeEdge (edgeNodes m2) m2"
  have r: "redistributeNodeSelectWeights m = m3"
    by (simp add: redistributeNodeSelectWeights_def Let_def m1_def m2_def m3_def)
  have a1: "agree m m1"
    by (simp add: agree_def cleanWeights_def m1_def)
  have empty: "candidateWeights (weightMgr m1) = []" "edgeWeights (weightMgr m1) = []"
    by (simp_all add: cleanWeights_def m1_def)
  note c = fold_redistributeCandidate [of m1 "candidateNodes m1", folded m2_def]
  note e = fold_redistributeEdge [of m2 "edgeNodes m2", folded m3_def]
  from c have a2: "agree m1 m2" by blast
  have a12: "agree m m2" using a1 a2 by (rule agree_trans)
  have en: "edgeNodes m2 = edgeNodes m" using a12 by (simp add: agree_def)
  have cn: "candidateNodes m1 = candidateNodes m" using a1 by (simp add: agree_def)
  have sd1: "slotsDue m1 = slotsDue m"
    by (rule ext) (rule agree_slotsDue [OF a1])
  have sd2: "slotsDue m2 = slotsDue m"
    by (rule ext) (rule agree_slotsDue [OF a12])
  have n1: "NodeID (heap m1 b) = NodeID (heap m b)" for b
    by (rule agree_NodeID [OF a1])
  have n2: "NodeID (heap m2 b) = NodeID (heap m b)" for b
    by (rule agree_NodeID [OF a12])
  have cw: "candidateWeights (weightMgr m3) = candidateWeights (weightMgr m2)"
    using e by blast
  have ew: "edgeWeights (weightMgr m2) = []"
    using c empty by simp
  have cl: "length (candidateWeights (weightMgr m3))
      = sum_list (map (slotsDue m) (candidateNodes m))"
    using c by (simp add: cw empty sd1 cn)
  have el: "length (edgeWeights (weightMgr m3)) = sum_list (map (slotsDue m) (edgeNodes m))"
    using e by (simp add: ew sd2 en)
  have cs: "length (slotsOf (candidateWeights (weightMgr m3)) j)
     = sum_list (map (slotsDue m) (filter (\<lambda>e. NodeID (heap m (snd e)) = j) (candidateNodes m)))"
    for j
    using fold_redistributeCandidate [of m1 "candidateNodes m1" j, folded m2_def]
    by (simp add: cw empty sd1 cn n1 slotsOf_def)
  have es: "length (slotsOf (edgeWeights (weightMgr m3)) j)
     = sum_list (map (slotsDue m) (filter (\<lambda>e. NodeID (heap m (snd e)) = j) (edgeNodes m)))"
    for j
    using fold_redistributeEdge [of m2 "edgeNodes m2" j, folded m3_def]
    by (simp add: ew sd2 en n2 slotsOf_def)
  have ca: "slotsOf (candidateWeights (weightMgr m3)) i = []"
    if "\<forall>e \<in> set (candidateNodes m). NodeID (heap m (snd e)) = i \<longrightarrow> IsAbnormal (heap m (snd e))"
  proof -
    have "sum_list (map (slotsDue m)
        (filter (\<lambda>e. NodeID (heap m (snd e)) = i) (candidateNodes m))) = 0"
      using that by (intro sum_list_zero) (auto simp: slotsDue_def Let_def)
    with cs [of i] show ?thesis by simp
  qed
  have ea: "slotsOf (edgeWeights (weightMgr m3)) i = []"
    if "\<forall>e \<in> set (edgeNodes m). NodeID (heap m (snd e)) = i \<longrightarrow> IsAbnormal (heap m (snd e))"
  proof -
    have "sum_list (map (slotsDue m)
        (filter (\<lambda>e. NodeID (heap m (snd e)) = i) (edgeNodes m))) = 0"
      using that by (intro sum_list_zero) (auto simp: slotsDue_def Let_def)
    with es [of i] show ?thesis by simp
  qed
  have cd: "distinct (map fst (candidateWeights (weightMgr m3)))"
    using c by (simp add: cw empty)
  have ed: "distinct (map fst (edgeWeights (weightMgr m3)))"
    using e by (simp add: ew)
  have ind: "redistributeNodeSelectWeights
       (m\<lparr>weightMgr := (weightMgr m)\<lparr>edgeWeights := p, candidateWeights := q\<rparr>\<rparr>)
     = m3"
    by (simp add: redistributeNodeSelectWeights_def Let_def cleanWeights_def m1_def m2_def m3_def)
  have tot: "slotTotal (weightMgr m3)
     = sum_list (map (slotsDue m) (candidateNodes m)) + sum_list (map (slotsDue m) (edgeNodes m))"
    by (simp add: slotTotal_def cl el)
  show ?thesis
    unfolding r using tot cs [of i] es [of i] ca ea cd ed ind by blast
qed

text \<open>
  In \<open>exFleet\<close> the identity \<open>c2\<close> is registered by an abnormal candidate only and
  \<open>gone\<close> by no edge: after the run six slots are allocated, none of them to either.
\<close>

theorem redistribute_full_reset_witness:
  "slotTotal (weightMgr (redistributeNodeSelectWeights exFleet)) = 6 \<and>
   slotsOf (candidateWeights (weightMgr (redistributeNodeSelectWeights exFleet))) ''c2'' = [] \<and>
   slotsOf (edgeWeights (weightMgr (redistributeNodeSelectWeights exFleet))) ''gone'' = []"
proof -
  have h1: "\<forall>e \<in> set (candidateNodes exFleet).
      NodeID (heap exFleet (snd e)) = ''c2'' \<longrightarrow> IsAbnormal (heap exFleet (snd e))"
    by (simp add: example_defs IsAbnormal_def)
  have h2: "\<forall>e \<in> set (edgeNodes exFleet).
      NodeID (heap exFleet (snd e)) = ''gone'' \<longrightarrow> IsAbnormal (heap exFleet (snd e))"
    by (simp add: example_defs IsAbnormal_def)
  have s: "sum_list (map (slotsDue exFleet) (candidateNodes exFleet))
      + sum_list (map (slotsDue exFleet) (edgeNodes exFleet)) = 6"
    by (simp add: example_defs slotsDue_def collab_defs getWeightNum_def)
  from redistribute_full_reset [of exFleet "''c2''"] h1 s
  have c: "slotTotal (weightMgr (redistributeNodeSelectWeights exFleet)) = 6"
    "slotsOf (candidateWeights (weightMgr (redistributeNodeSelectWeights exFleet))) ''c2'' = []"
    by simp_all
  from redistribute_full_reset [of exFleet "''gone''"] h2
  have e: "slotsOf (edgeWeights (weightMgr (redistributeNodeSelectWeights exFleet))) ''gone'' = []"
    by simp
  from c e show ?thesis by simp
qed


section \<open>Rounding to float64\<close>

lemma pow_le_of_nat: "2 ^ j \<le> (n::nat) \<Longrightarrow> (2::rat) ^ j \<le> of_nat n"
proof -
  assume "2 ^ j \<le> n"
  then have "(of_nat (2 ^ j) :: rat) \<le> of_nat n" by (rule of_nat_mono)
  then show ?thesis by simp
qed

lemma of_nat_less_pow: "(n::nat) < 2 ^ j \<Longrightarrow> (of_nat n :: rat) + 1 \<le> 2 ^ j"
proof -
  assume "n < 2 ^ j"
  then have "Suc n \<le> 2 ^ j" by simp
  then have "(of_nat (Suc n) :: rat) \<le> of_nat (2 ^ j)" by (rule of_nat_mono)
  then show ?thesis by simp
qed

lemma ilog2_bounds:
  assumes "0 < x"
  shows "2 powi (ilog2 x) \<le> x" and "x < 2 powi (ilog2 x + 1)"
proof -
  have "2 powi (ilog2 x) \<le> x \<and> x < 2 powi (ilog2 x + 1)"
  proof (cases "1 \<le> x")
    case True
    define n where "n = nat \<lfloor>x\<rfloor>"
    define k where "k = floorlog 2 n"
    have n: "0 < n" using True by (simp add: n_def)
    have k: "0 < k" using n floorlog_eq_zero_iff [of 2 n] by (auto simp: k_def)
    from floorlog_bounds [of n 2] n have
      b: "2 ^ (k - 1) \<le> n" "n < 2 ^ k" by (simp_all add: k_def)
    have i: "ilog2 x = int k - 1"
      using True by (simp add: ilog2_def n_def k_def)
    have e1: "(2::rat) powi (int k - 1) = 2 ^ (k - 1)"
      using k by (simp add: power_int_def nat_diff_distrib')
    have e2: "(2::rat) powi (int k - 1 + 1) = 2 ^ k"
      by simp
    have nx: "of_nat n \<le> x" "x < of_nat n + 1"
      using True by (simp_all add: n_def) linarith+
    have "(2::rat) ^ (k - 1) \<le> of_nat n"
      using b(1) by (rule pow_le_of_nat)
    moreover have "(of_nat n :: rat) + 1 \<le> 2 ^ k"
      using b(2) by (rule of_nat_less_pow)
    ultimately show ?thesis
      using nx unfolding i e1 e2 by linarith
  next
    case False
    define y where "y = 1 / x"
    define n where "n = nat (\<lceil>y\<rceil> - 1)"
    define k where "k = floorlog 2 n"
    have y: "1 < y" using False assms by (simp add: y_def)
    then have c: "2 \<le> \<lceil>y\<rceil>" by linarith
    have n: "0 < n" using c by (simp add: n_def)
    have k: "0 < k" using n floorlog_eq_zero_iff [of 2 n] by (auto simp: k_def)
    from floorlog_bounds [of n 2] n have
      b: "2 ^ (k - 1) \<le> n" "n < 2 ^ k" by (simp_all add: k_def)
    have i: "ilog2 x = - int k"
      using False by (simp add: ilog2_def n_def k_def y_def)
    have ny: "of_nat n < y" "y \<le> of_nat n + 1"
      using c by (simp_all add: n_def) linarith+
    have b1: "(2::rat) ^ (k - 1) \<le> of_nat n"
      using b(1) by (rule pow_le_of_nat)
    have b2: "(of_nat n :: rat) + 1 \<le> 2 ^ k"
      using b(2) by (rule of_nat_less_pow)
    have e1: "(2::rat) powi (- int k) = 1 / 2 ^ k"
      by (simp add: power_int_minus_divide)
    have e2: "(2::rat) powi (- int k + 1) = 1 / 2 ^ (k - 1)"
    proof -
      have "- int k + 1 = - int (k - 1)" using k by simp
      then show ?thesis by (simp add: power_int_minus_divide del: of_nat_diff)
    qed
    have x: "x = 1 / y" using assms by (simp add: y_def)
    have r1: "1 / 2 ^ k \<le> x"
      unfolding x using ny(2) b2 y by (intro divide_left_mono) auto
    have r2: "x < 1 / 2 ^ (k - 1)"
    proof -
      have "(2::rat) ^ (k - 1) < y" using ny(1) b1 by linarith
      then show ?thesis unfolding x using y by (intro divide_strict_left_mono) auto
    qed
    show ?thesis
      unfolding i e1 e2 using r1 r2 by blast
  qed
  then show "2 powi (ilog2 x) \<le> x" and "x < 2 powi (ilog2 x + 1)" by simp_all
qed

lemma ilog2_unique:
  assumes "2 powi e \<le> x" "x < 2 powi (e + 1)"
  shows "ilog2 x = e"
proof -
  have pos: "0 < x"
    using assms(1) zero_less_power_int [of "2::rat" e] by linarith
  note b = ilog2_bounds [OF pos]
  have "\<not> ilog2 x < e"
  proof
    assume "ilog2 x < e"
    then have "ilog2 x + 1 \<le> e" by simp
    then have "(2::rat) powi (ilog2 x + 1) \<le> 2 powi e"
      by (intro power_int_increasing) auto
    with b(2) assms(1) show False by linarith
  qed
  moreover have "\<not> e < ilog2 x"
  proof
    assume "e < ilog2 x"
    then have "e + 1 \<le> ilog2 x" by simp
    then have "(2::rat) powi (e + 1) \<le> 2 powi (ilog2 x)"
      by (intro power_int_increasing) auto
    with b(1) assms(2) show False by linarith
  qed
  ultimately show ?thesis by linarith
qed

lemma ilog2_mono:
  assumes "0 < x" "x \<le> y"
  shows "ilog2 x \<le> ilog2 y"
proof (rule ccontr)
  assume "\<not> ilog2 x \<le> ilog2 y"
  then have "ilog2 y + 1 \<le> ilog2 x" by simp
  then have "(2::rat) powi (ilog2 y + 1) \<le> 2 powi (ilog2 x)"
    by (intro power_int_increasing) auto
  with ilog2_bounds(1) [OF assms(1)] ilog2_bounds(2) [of y] assms show False
    by linarith
qed

lemma roundEven_bounds: "\<lfloor>x\<rfloor> \<le> roundEven x" "roundEven x \<le> \<lfloor>x\<rfloor> + 1"
  by (simp_all add: roundEven_def Let_def)

lemma roundEven_of_int [simp]: "roundEven (of_int n) = n"
  by (simp add: roundEven_def Let_def)

lemma roundEven_mono:
  assumes "x \<le> y"
  shows "roundEven x \<le> roundEven y"
proof (cases "\<lfloor>x\<rfloor> = \<lfloor>y\<rfloor>")
  case True
  with assms show ?thesis
    by (auto simp: roundEven_def Let_def)
next
  case False
  with assms have "\<lfloor>x\<rfloor> < \<lfloor>y\<rfloor>"
    using floor_mono [of x y] by linarith
  with roundEven_bounds(2) [of x] roundEven_bounds(1) [of y] show ?thesis
    by linarith
qed

lemma roundEven_ge_int: "of_int n \<le> x \<Longrightarrow> n \<le> roundEven x"
  using roundEven_mono [of "of_int n" x] by simp

lemma roundEven_le_int: "x \<le> of_int n \<Longrightarrow> roundEven x \<le> n"
  using roundEven_mono [of x "of_int n"] by simp

lemma roundEven_minus: "roundEven (- x) = - roundEven x"
proof (cases "x = of_int \<lfloor>x\<rfloor>")
  case True
  then obtain n where "x = of_int n" ..
  then have "- x = of_int (- n)" by simp
  then show ?thesis unfolding \<open>x = of_int n\<close> by (simp only: roundEven_of_int)
next
  case False
  then have f: "\<lfloor>- x\<rfloor> = - \<lfloor>x\<rfloor> - 1"
    by (metis ceiling_altdef ceiling_def minus_diff_eq minus_minus uminus_add_conv_diff)
  show ?thesis
    by (auto simp: roundEven_def Let_def f)
qed

lemma roundEven_near:
  "of_int n - 1 / 2 < x \<Longrightarrow> x < of_int n + 1 / 2 \<Longrightarrow> roundEven x = n"
proof -
  assume a: "of_int n - 1 / 2 < x" "x < of_int n + 1 / 2"
  have "\<lfloor>x\<rfloor> = n \<or> \<lfloor>x\<rfloor> = n - 1"
    using a by (simp add: floor_eq_iff) linarith
  then show ?thesis
    using a by (auto simp: roundEven_def Let_def)
qed

lemma roundEven_tie:
  "x = of_int n + 1 / 2 \<Longrightarrow> roundEven x = (if even n then n else n + 1)"
proof -
  assume a: "x = of_int n + 1 / 2"
  have "\<lfloor>x\<rfloor> = n"
    unfolding a by (simp add: floor_eq_iff)
  then show ?thesis
    using a by (simp add: roundEven_def Let_def)
qed

lemma quantum_pos [simp]: "0 < quantum x"
  by (simp add: quantum_def)

lemma quantum_nonneg [simp]: "0 \<le> quantum x"
  by (simp add: quantum_def)

lemma quantum_nonzero [simp]: "quantum x \<noteq> 0"
  by (simp add: quantum_def)

lemma quantum_minus [simp]: "quantum (- x) = quantum x"
  by (simp add: quantum_def)

lemma f64_minus: "f64 (- x) = - f64 x"
  by (simp add: f64_def roundEven_minus)

lemma f64_nonneg: "0 \<le> x \<Longrightarrow> 0 \<le> f64 x"
proof -
  assume "0 \<le> x"
  then have "of_int 0 \<le> x / quantum x" by (simp add: zero_le_divide_iff)
  then have "0 \<le> roundEven (x / quantum x)" by (rule roundEven_ge_int)
  then show ?thesis by (simp add: f64_def)
qed

lemma f64_eval:
  assumes "2 powi e \<le> \<bar>x\<bar>" "\<bar>x\<bar> < 2 powi (e + 1)"
  shows "f64 x = of_int (roundEven (x / 2 powi (max e (- 1022) - 52)))
                   * 2 powi (max e (- 1022) - 52)"
proof -
  have i: "ilog2 \<bar>x\<bar> = e" using assms by (rule ilog2_unique)
  have p: "(0::rat) < 2 powi e" by simp
  have "x \<noteq> 0"
  proof
    assume "x = 0"
    with assms(1) have "(2::rat) powi e \<le> 0" by simp
    with p show False by linarith
  qed
  with i show ?thesis by (simp add: f64_def quantum_def)
qed

lemma f64_mono_pos:
  assumes "0 < x" "x \<le> y"
  shows "f64 x \<le> f64 y"
proof -
  define ex where "ex = max (ilog2 x) (- 1022)"
  define ey where "ey = max (ilog2 y) (- 1022)"
  have ypos: "0 < y" using assms by simp
  have qx: "quantum x = 2 powi (ex - 52)" using assms(1) by (simp add: quantum_def ex_def)
  have qy: "quantum y = 2 powi (ey - 52)" using ypos by (simp add: quantum_def ey_def)
  have fx: "f64 x = of_int (roundEven (x / quantum x)) * quantum x"
    using assms(1) by (simp add: f64_def)
  have fy: "f64 y = of_int (roundEven (y / quantum y)) * quantum y"
    using ypos by (simp add: f64_def)
  have le: "ex \<le> ey"
    using ilog2_mono [OF assms] by (simp add: ex_def ey_def)
  show ?thesis
  proof (cases "ex = ey")
    case True
    then have q: "quantum y = quantum x" by (simp add: qx qy)
    have "x / quantum x \<le> y / quantum x"
      using assms(2) by (intro divide_right_mono) simp_all
    then have "roundEven (x / quantum x) \<le> roundEven (y / quantum x)"
      by (rule roundEven_mono)
    then have "(of_int (roundEven (x / quantum x)) :: rat) \<le> of_int (roundEven (y / quantum x))"
      by simp
    then show ?thesis
      unfolding fx fy q by (simp add: mult_right_mono)
  next
    case False
    with le have lt: "ex < ey" by simp
    then have ey: "ey = ilog2 y" "ilog2 x < ilog2 y"
      by (auto simp: ex_def ey_def)
    define B :: rat where "B = 2 powi ey"
    have By: "B \<le> y"
      using ilog2_bounds(1) [OF ypos] by (simp add: B_def ey)
    have xB: "x \<le> B"
    proof -
      have "ilog2 x + 1 \<le> ey" using ey by simp
      then have "(2::rat) powi (ilog2 x + 1) \<le> 2 powi ey"
        by (intro power_int_increasing) auto
      with ilog2_bounds(2) [OF assms(1)] show ?thesis by (simp add: B_def)
    qed
    have By': "B / quantum y = of_int (2 ^ 52)"
    proof -
      have "B / quantum y = 2 powi (ey - (ey - 52))"
        unfolding B_def qy by (subst power_int_diff) auto
      then show ?thesis by simp
    qed
    have Bx': "B / quantum x = of_int (2 ^ nat (ey - ex + 52))"
    proof -
      have "B / quantum x = 2 powi (ey - (ex - 52))"
        unfolding B_def qx by (subst power_int_diff) auto
      also have "ey - (ex - 52) = int (nat (ey - ex + 52))"
        using lt by simp
      finally show ?thesis by (simp only: power_int_of_nat) simp
    qed
    have "of_int (2 ^ 52) \<le> y / quantum y"
      using By unfolding By' [symmetric] by (intro divide_right_mono) simp_all
    then have "2 ^ 52 \<le> roundEven (y / quantum y)" by (rule roundEven_ge_int)
    then have "(of_int (2 ^ 52) :: rat) \<le> of_int (roundEven (y / quantum y))"
      by (simp only: of_int_le_iff)
    then have "of_int (2 ^ 52) * quantum y \<le> f64 y"
      unfolding fy by (simp add: mult_right_mono)
    then have up: "B \<le> f64 y"
      unfolding By' [symmetric] by simp
    have "x / quantum x \<le> of_int (2 ^ nat (ey - ex + 52))"
      using xB unfolding Bx' [symmetric] by (intro divide_right_mono) simp_all
    then have "roundEven (x / quantum x) \<le> 2 ^ nat (ey - ex + 52)" by (rule roundEven_le_int)
    then have "(of_int (roundEven (x / quantum x)) :: rat) \<le> of_int (2 ^ nat (ey - ex + 52))"
      by (simp only: of_int_le_iff)
    then have "f64 x \<le> of_int (2 ^ nat (ey - ex + 52)) * quantum x"
      unfolding fx by (simp add: mult_right_mono)
    then have "f64 x \<le> B"
      unfolding Bx' [symmetric] by simp
    with up show ?thesis by simp
  qed
qed

lemma f64_mono:
  assumes "x \<le> y"
  shows "f64 x \<le> f64 y"
proof -
  consider "0 < x" | "x \<le> 0" "0 \<le> y" | "y < 0" by linarith
  then show ?thesis
  proof cases
    case 1
    then show ?thesis using assms by (rule f64_mono_pos)
  next
    case 2
    have "0 \<le> f64 (- x)" using 2(1) by (intro f64_nonneg) simp
    then have "f64 x \<le> 0" by (simp add: f64_minus)
    with f64_nonneg [OF 2(2)] show ?thesis by simp
  next
    case 3
    then have "0 < - y" "- y \<le> - x" using assms by simp_all
    then have "f64 (- y) \<le> f64 (- x)" by (rule f64_mono_pos)
    then show ?thesis by (simp add: f64_minus)
  qed
qed

lemma f64_near:
  assumes "2 powi e \<le> \<bar>x\<bar>" "\<bar>x\<bar> < 2 powi (e + 1)"
    and "of_int n - 1 / 2 < x / 2 powi (max e (- 1022) - 52)"
    and "x / 2 powi (max e (- 1022) - 52) < of_int n + 1 / 2"
    and "r = of_int n * 2 powi (max e (- 1022) - 52)"
  shows "f64 x = r"
  unfolding f64_eval [OF assms(1,2)] assms(5)
  by (simp only: roundEven_near [OF assms(3,4)])

lemma f64_tie:
  assumes "2 powi e \<le> \<bar>x\<bar>" "\<bar>x\<bar> < 2 powi (e + 1)"
    and "x / 2 powi (max e (- 1022) - 52) = of_int n + 1 / 2"
    and "r = of_int (if even n then n else n + 1) * 2 powi (max e (- 1022) - 52)"
  shows "f64 x = r"
  unfolding f64_eval [OF assms(1,2)] assms(4)
  by (simp only: roundEven_tie [OF assms(3)])

text \<open>The rounding at a familiar value: the \<open>float64\<close> nearest to 0.1.\<close>

lemma f64_tenth: "f64 (1 / 10) = 3602879701896397 / 36028797018963968"
  by (rule f64_near [where e = "- 4" and n = 7205759403792794]) simp_all

lemma f64_of_int:
  assumes "\<bar>k\<bar> < 2 ^ 53"
  shows "f64 (of_int k) = of_int k"
proof (cases "k = 0")
  case True
  then show ?thesis by (simp add: f64_def)
next
  case False
  define x :: rat where "x = of_int \<bar>k\<bar>"
  have xpos: "0 < x" "1 \<le> x" using False by (simp_all add: x_def)
  define e where "e = ilog2 x"
  note b = ilog2_bounds [OF xpos(1), folded e_def]
  have e0: "0 \<le> e"
  proof (rule ccontr)
    assume "\<not> 0 \<le> e"
    then have "e + 1 \<le> 0" by simp
    then have "(2::rat) powi (e + 1) \<le> 2 powi 0"
      by (intro power_int_increasing) auto
    with b(2) xpos(2) show False by simp
  qed
  have e52: "e \<le> 52"
  proof (rule ccontr)
    assume "\<not> e \<le> 52"
    then have "53 \<le> e" by simp
    then have "(2::rat) powi 53 \<le> 2 powi e"
      by (intro power_int_increasing) auto
    moreover have "x < 2 ^ 53"
    proof -
      have "(of_int \<bar>k\<bar> :: rat) < of_int (2 ^ 53)"
        using assms by (simp only: of_int_less_iff)
      then show ?thesis by (simp add: x_def)
    qed
    ultimately show False using b(1) by simp
  qed
  have ax: "\<bar>of_int k :: rat\<bar> = x" by (simp add: x_def)
  have q: "quantum (of_int k) = 2 powi (e - 52)"
    using e0 by (simp add: quantum_def ax e_def)
  have "(of_int k :: rat) / 2 powi (e - 52) = of_int k * 2 powi (52 - e)"
    using power_int_minus [of "2::rat" "e - 52"] by (simp add: field_simps)
  also have "52 - e = int (nat (52 - e))" using e52 by simp
  also have "(of_int k :: rat) * 2 powi int (nat (52 - e)) = of_int (k * 2 ^ nat (52 - e))"
    by (simp only: power_int_of_nat) simp
  finally have r: "roundEven (of_int k / quantum (of_int k)) = k * 2 ^ nat (52 - e)"
    by (simp only: q roundEven_of_int)
  have "f64 (of_int k) = of_int (k * 2 ^ nat (52 - e)) * 2 powi (e - 52)"
    using False by (simp add: f64_def r) (simp add: q)
  also have "\<dots> = of_int k * (2 powi int (nat (52 - e)) * 2 powi (e - 52))"
    by (simp only: power_int_of_nat) simp
  also have "2 powi int (nat (52 - e)) * 2 powi (e - 52) = (2::rat) powi (int (nat (52 - e)) + (e - 52))"
    by (subst power_int_add) auto
  also have "int (nat (52 - e)) + (e - 52) = 0" using e52 by simp
  finally show ?thesis by simp
qed

lemma f64_numeral [simp]:
  "(numeral w :: int) < 2 ^ 53 \<Longrightarrow> f64 (numeral w) = numeral w"
  using f64_of_int [of "numeral w"] by simp

lemma f64_0 [simp]: "f64 0 = 0"
  by (simp add: f64_def)

lemma f64_1 [simp]: "f64 1 = 1"
  using f64_of_int [of 1] by simp

lemma fadd_mono: "a \<le> a' \<Longrightarrow> b \<le> b' \<Longrightarrow> fadd a b \<le> fadd a' b'"
  unfolding fadd_def by (rule f64_mono) simp

lemma fmul_mono: "a \<le> a' \<Longrightarrow> 0 \<le> c \<Longrightarrow> fmul a c \<le> fmul a' c"
  unfolding fmul_def by (rule f64_mono) (rule mult_right_mono)

lemma fdiv_mono: "a \<le> a' \<Longrightarrow> 0 \<le> c \<Longrightarrow> fdiv a c \<le> fdiv a' c"
  unfolding fdiv_def by (rule f64_mono) (rule divide_right_mono)

lemma min_float64_mono: "a \<le> a' \<Longrightarrow> min_float64 a c \<le> min_float64 a' c"
  by (simp add: min_float64_def)

lemma toInt_mono:
  assumes "a \<le> b"
  shows "toInt a \<le> toInt b"
proof -
  consider "0 \<le> a" | "a < 0" "0 \<le> b" | "b < 0" by linarith
  then show ?thesis
  proof cases
    case 1
    then show ?thesis using assms by (simp add: toInt_def floor_mono)
  next
    case 2
    then have c: "\<lceil>a\<rceil> \<le> 0" "0 \<le> \<lfloor>b\<rfloor>" by (simp_all add: ceiling_le_iff)
    have "toInt a = \<lceil>a\<rceil>" "toInt b = \<lfloor>b\<rfloor>" using 2 by (simp_all add: toInt_def)
    with c show ?thesis by linarith
  next
    case 3
    then show ?thesis using assms by (simp add: toInt_def ceiling_mono)
  qed
qed

lemma loopSum_mono: "i \<le> j \<Longrightarrow> loopSum i \<le> loopSum j"
  by (simp add: loopSum_def)

lemma bytesToGB_mono: "a \<le> b \<Longrightarrow> bytesToGB a \<le> bytesToGB b"
  unfolding bytesToGB_def by (intro fdiv_mono) simp_all

lemma calculateMN_nonneg: "0 \<le> calculateMN t"
  by (cases t) (simp_all add: calculateMN_def f64_nonneg)

lemma weighting_nonneg: "0 \<le> weighting p"
  by (simp add: weighting_def f64_nonneg)

lemma sumLoop_eq: "sumLoop i 1 0 = Some (loopSum i)"
proof -
  have m: "k \<le> min_float64 i 4 \<longleftrightarrow> k \<le> i" if "k \<le> 4" for k
    using that by (auto simp: min_float64_def)
  have s5: "sumLoop i 5 s = Some s" for s
    by (subst sumLoop.simps) (simp add: min_float64_def)
  have s4: "sumLoop i 4 s = (if 4 \<le> i then Some (fadd s 4) else Some s)" for s
    by (subst sumLoop.simps) (simp add: m fadd_def [of 4 1] s5)
  have s3: "sumLoop i 3 s = (if 3 \<le> i then sumLoop i 4 (fadd s 3) else Some s)" for s
    by (subst sumLoop.simps) (simp add: m fadd_def [of 3 1])
  have s2: "sumLoop i 2 s = (if 2 \<le> i then sumLoop i 3 (fadd s 2) else Some s)" for s
    by (subst sumLoop.simps) (simp add: m fadd_def [of 2 1])
  have s1: "sumLoop i 1 s = (if 1 \<le> i then sumLoop i 2 (fadd s 1) else Some s)" for s
    by (subst sumLoop.simps) (simp add: m fadd_def [of 1 1])
  show ?thesis
    unfolding s1 s2 s3 s4 by (simp add: loopSum_def fadd_def)
qed

lemma calculateMC_eq:
  "calculateMC i j = Some (fmul (fadd (loopSum i) (loopSum j)) (f64 (7 / 10)))"
  by (simp add: calculateMC_def sumLoop_eq)

section \<open>The scores of the example nodes, operation by operation\<close>

text \<open>
  Every \<open>float64\<close> operation that \<open>calculateAndSavePoints\<close> performs for the node of
  the scenario (4 cores, memory 4, bandwidth 200, full cone, 1500 GB, 1000 edges), with its
  rounded result.
\<close>

lemma scenario_step_1: "f64 4 = 4"
  by (rule f64_near [where e = 2 and n = 4503599627370496]) simp_all

lemma scenario_step_2: "fadd 10 10 = 20"
  unfolding fadd_def
  by (rule f64_near [where e = 4 and n = 5629499534213120]) simp_all

lemma scenario_step_3: "f64 (7 / 10) = 3152519739159347 / 4503599627370496"
  by (rule f64_near [where e = "- 1" and n = 6305039478318694]) simp_all

lemma scenario_step_4: "fmul 20 (3152519739159347 / 4503599627370496) = 14"
  unfolding fmul_def
  by (rule f64_tie [where e = 3 and n = 7881299347898367]) simp_all

lemma scenario_step_5: "f64 200 = 200"
  by (rule f64_near [where e = 7 and n = 7036874417766400]) simp_all

lemma scenario_step_6: "fdiv 200 100 = 2"
  unfolding fdiv_def
  by (rule f64_near [where e = 1 and n = 4503599627370496]) simp_all

lemma scenario_step_7: "fmul 2 2 = 4"
  unfolding fmul_def
  by (rule f64_near [where e = 2 and n = 4503599627370496]) simp_all

lemma scenario_step_8: "fadd 10 4 = 14"
  unfolding fadd_def
  by (rule f64_near [where e = 3 and n = 7881299347898368]) simp_all

lemma scenario_step_9: "f64 (5 / 2) = 5 / 2"
  by (rule f64_near [where e = 1 and n = 5629499534213120]) simp_all

lemma scenario_step_10: "fmul 14 (5 / 2) = 35"
  unfolding fmul_def
  by (rule f64_near [where e = 5 and n = 4925812092436480]) simp_all

lemma scenario_step_11: "fdiv 1610612736000 1024 = 1572864000"
  unfolding fdiv_def
  by (rule f64_near [where e = 30 and n = 6597069766656000]) simp_all

lemma scenario_step_12: "fdiv 1572864000 1024 = 1536000"
  unfolding fdiv_def
  by (rule f64_near [where e = 20 and n = 6597069766656000]) simp_all

lemma scenario_step_13: "fdiv 1536000 1024 = 1500"
  unfolding fdiv_def
  by (rule f64_near [where e = 10 and n = 6597069766656000]) simp_all

lemma scenario_step_14: "f64 (1 / 100) = 5764607523034235 / 576460752303423488"
  by (rule f64_near [where e = "- 7" and n = 5764607523034235]) simp_all

lemma scenario_step_15: "fdiv 1 1500 = 6148914691236517 / 9223372036854775808"
  unfolding fdiv_def
  by (rule f64_near [where e = "- 11" and n = 6148914691236517]) simp_all

lemma scenario_step_16: "fadd (5764607523034235 / 576460752303423488) (6148914691236517 / 9223372036854775808) = 6148914691236517 / 576460752303423488"
  unfolding fadd_def
  by (rule f64_near [where e = "- 7" and n = 6148914691236517]) simp_all

lemma scenario_step_17: "fmul 1500 (6148914691236517 / 576460752303423488) = 16"
  unfolding fmul_def
  by (rule f64_near [where e = 3 and n = 9007199254740992]) simp_all

lemma scenario_step_18: "fadd 14 35 = 49"
  unfolding fadd_def
  by (rule f64_near [where e = 5 and n = 6896136929411072]) simp_all

lemma scenario_step_19: "fadd 49 16 = 65"
  unfolding fadd_def
  by (rule f64_near [where e = 6 and n = 4573968371548160]) simp_all

lemma scenario_step_20: "fmul 65 2 = 130"
  unfolding fmul_def
  by (rule f64_near [where e = 7 and n = 4573968371548160]) simp_all

lemma scenario_step_21: "fmul 130 1 = 130"
  unfolding fmul_def
  by (rule f64_near [where e = 7 and n = 4573968371548160]) simp_all

lemmas scenario_steps = scenario_step_1 scenario_step_2 scenario_step_3 scenario_step_4 scenario_step_5 scenario_step_6 scenario_step_7 scenario_step_8 scenario_step_9 scenario_step_10 scenario_step_11 scenario_step_12 scenario_step_13 scenario_step_14 scenario_step_15 scenario_step_16 scenario_step_17 scenario_step_18 scenario_step_19 scenario_step_20 scenario_step_21

text \<open>
  The same for the nodes \<open>exDiskLow\<close> and \<open>exDiskHigh\<close> (4 cores, memory 4, bandwidth
  300, full cone, 3000 edges), whose disk spaces are the adjacent \<open>float64\<close> values
  0x1.a0aaaaaaaaaa2p+40 and 0x1.a0aaaaaaaaaa3p+40 bytes, about 1666.67 GB.
\<close>

lemma disk_step_1: "f64 4 = 4"
  by (rule f64_near [where e = 2 and n = 4503599627370496]) simp_all

lemma disk_step_2: "fadd 10 10 = 20"
  unfolding fadd_def
  by (rule f64_near [where e = 4 and n = 5629499534213120]) simp_all

lemma disk_step_3: "f64 (7 / 10) = 3152519739159347 / 4503599627370496"
  by (rule f64_near [where e = "- 1" and n = 6305039478318694]) simp_all

lemma disk_step_4: "fmul 20 (3152519739159347 / 4503599627370496) = 14"
  unfolding fmul_def
  by (rule f64_tie [where e = 3 and n = 7881299347898367]) simp_all

lemma disk_step_5: "f64 300 = 300"
  by (rule f64_near [where e = 8 and n = 5277655813324800]) simp_all

lemma disk_step_6: "fdiv 300 100 = 3"
  unfolding fdiv_def
  by (rule f64_near [where e = 1 and n = 6755399441055744]) simp_all

lemma disk_step_7: "fmul 3 2 = 6"
  unfolding fmul_def
  by (rule f64_near [where e = 2 and n = 6755399441055744]) simp_all

lemma disk_step_8: "fadd 10 6 = 16"
  unfolding fadd_def
  by (rule f64_near [where e = 4 and n = 4503599627370496]) simp_all

lemma disk_step_9: "f64 (5 / 2) = 5 / 2"
  by (rule f64_near [where e = 1 and n = 5629499534213120]) simp_all

lemma disk_step_10: "fmul 16 (5 / 2) = 40"
  unfolding fmul_def
  by (rule f64_near [where e = 5 and n = 5629499534213120]) simp_all

lemma disk_step_11: "fdiv (3665038759253329 / 2048) 1024 = 3665038759253329 / 2097152"
  unfolding fdiv_def
  by (rule f64_near [where e = 30 and n = 7330077518506658]) simp_all

lemma disk_step_12: "fdiv (3665038759253329 / 2097152) 1024 = 3665038759253329 / 2147483648"
  unfolding fdiv_def
  by (rule f64_near [where e = 20 and n = 7330077518506658]) simp_all

lemma disk_step_13: "fdiv (3665038759253329 / 2147483648) 1024 = 3665038759253329 / 2199023255552"
  unfolding fdiv_def
  by (rule f64_near [where e = 10 and n = 7330077518506658]) simp_all

lemma disk_step_14: "f64 (1 / 100) = 5764607523034235 / 576460752303423488"
  by (rule f64_near [where e = "- 7" and n = 5764607523034235]) simp_all

lemma disk_step_15: "fdiv 1 (3665038759253329 / 2199023255552) = 691752902764109 / 1152921504606846976"
  unfolding fdiv_def
  by (rule f64_near [where e = "- 11" and n = 5534023222112872]) simp_all

lemma disk_step_16: "fadd (5764607523034235 / 576460752303423488) (691752902764109 / 1152921504606846976) = 3055241987208145 / 288230376151711744"
  unfolding fadd_def
  by (rule f64_tie [where e = "- 7" and n = 6110483974416289]) simp_all

lemma disk_step_17: "fmul (3665038759253329 / 2199023255552) (3055241987208145 / 288230376151711744) = 2486362294277459 / 140737488355328"
  unfolding fmul_def
  by (rule f64_near [where e = 4 and n = 4972724588554918]) simp_all

lemma disk_step_18: "f64 (9 / 5) = 8106479329266893 / 4503599627370496"
  by (rule f64_near [where e = 0 and n = 8106479329266893]) simp_all

lemma disk_step_19: "fadd 14 40 = 54"
  unfolding fadd_def
  by (rule f64_near [where e = 5 and n = 7599824371187712]) simp_all

lemma disk_step_20: "fadd 54 (2486362294277459 / 140737488355328) = 2521546666366293 / 35184372088832"
  unfolding fadd_def
  by (rule f64_tie [where e = 6 and n = 5043093332732585]) simp_all

lemma disk_step_21: "fmul (2521546666366293 / 35184372088832) (8106479329266893 / 4503599627370496) = 129"
  unfolding fmul_def
  by (rule f64_near [where e = 7 and n = 4538783999459328]) simp_all

lemma disk_step_22: "fmul 129 1 = 129"
  unfolding fmul_def
  by (rule f64_near [where e = 7 and n = 4538783999459328]) simp_all

lemma disk_step_23: "fdiv (7330077518506659 / 4096) 1024 = 7330077518506659 / 4194304"
  unfolding fdiv_def
  by (rule f64_near [where e = 30 and n = 7330077518506659]) simp_all

lemma disk_step_24: "fdiv (7330077518506659 / 4194304) 1024 = 7330077518506659 / 4294967296"
  unfolding fdiv_def
  by (rule f64_near [where e = 20 and n = 7330077518506659]) simp_all

lemma disk_step_25: "fdiv (7330077518506659 / 4294967296) 1024 = 7330077518506659 / 4398046511104"
  unfolding fdiv_def
  by (rule f64_near [where e = 10 and n = 7330077518506659]) simp_all

lemma disk_step_26: "fdiv 1 (7330077518506659 / 4398046511104) = 5534023222112871 / 9223372036854775808"
  unfolding fdiv_def
  by (rule f64_near [where e = "- 11" and n = 5534023222112871]) simp_all

lemma disk_step_27: "fadd (5764607523034235 / 576460752303423488) (5534023222112871 / 9223372036854775808) = 6110483974416289 / 576460752303423488"
  unfolding fadd_def
  by (rule f64_near [where e = "- 7" and n = 6110483974416289]) simp_all

lemma disk_step_28: "fmul (7330077518506659 / 4398046511104) (6110483974416289 / 576460752303423488) = 4972724588554917 / 281474976710656"
  unfolding fmul_def
  by (rule f64_near [where e = 4 and n = 4972724588554917]) simp_all

lemma disk_step_29: "fadd 54 (4972724588554917 / 281474976710656) = 5043093332732585 / 70368744177664"
  unfolding fadd_def
  by (rule f64_near [where e = 6 and n = 5043093332732585]) simp_all

lemma disk_step_30: "fmul (5043093332732585 / 70368744177664) (8106479329266893 / 4503599627370496) = 4538783999459327 / 35184372088832"
  unfolding fmul_def
  by (rule f64_near [where e = 7 and n = 4538783999459327]) simp_all

lemma disk_step_31: "fmul (4538783999459327 / 35184372088832) 1 = 4538783999459327 / 35184372088832"
  unfolding fmul_def
  by (rule f64_near [where e = 7 and n = 4538783999459327]) simp_all

lemma disk_step_32: "f64 (3665038759253329 / 2048) = 3665038759253329 / 2048"
  by (rule f64_near [where e = 40 and n = 7330077518506658]) simp_all

lemma disk_step_33: "f64 (7330077518506659 / 4096) = 7330077518506659 / 4096"
  by (rule f64_near [where e = 40 and n = 7330077518506659]) simp_all

lemmas disk_steps = disk_step_1 disk_step_2 disk_step_3 disk_step_4 disk_step_5 disk_step_6 disk_step_7 disk_step_8 disk_step_9 disk_step_10 disk_step_11 disk_step_12 disk_step_13 disk_step_14 disk_step_15 disk_step_16 disk_step_17 disk_step_18 disk_step_19 disk_step_20 disk_step_21 disk_step_22 disk_step_23 disk_step_24 disk_step_25 disk_step_26 disk_step_27 disk_step_28 disk_step_29 disk_step_30 disk_step_31 disk_step_32 disk_step_33

text \<open>
  The same for \<open>exSmall\<close> (2 cores, memory 2, bandwidth 100, 500 GB) and \<open>exLarge\<close>
  (4 cores, memory 4, bandwidth 200, 1000 GB), both full cone, with 3000 edges.
\<close>

lemma small_step_1: "f64 2 = 2"
  by (rule f64_near [where e = 1 and n = 4503599627370496]) simp_all

lemma small_step_2: "fadd 3 3 = 6"
  unfolding fadd_def
  by (rule f64_near [where e = 2 and n = 6755399441055744]) simp_all

lemma small_step_3: "f64 (7 / 10) = 3152519739159347 / 4503599627370496"
  by (rule f64_near [where e = "- 1" and n = 6305039478318694]) simp_all

lemma small_step_4: "fmul 6 (3152519739159347 / 4503599627370496) = 1182194902184755 / 281474976710656"
  unfolding fmul_def
  by (rule f64_tie [where e = 2 and n = 4728779608739020]) simp_all

lemma small_step_5: "f64 100 = 100"
  by (rule f64_near [where e = 6 and n = 7036874417766400]) simp_all

lemma small_step_6: "fdiv 100 100 = 1"
  unfolding fdiv_def
  by (rule f64_near [where e = 0 and n = 4503599627370496]) simp_all

lemma small_step_7: "fmul 1 2 = 2"
  unfolding fmul_def
  by (rule f64_near [where e = 1 and n = 4503599627370496]) simp_all

lemma small_step_8: "fadd 10 2 = 12"
  unfolding fadd_def
  by (rule f64_near [where e = 3 and n = 6755399441055744]) simp_all

lemma small_step_9: "f64 (5 / 2) = 5 / 2"
  by (rule f64_near [where e = 1 and n = 5629499534213120]) simp_all

lemma small_step_10: "fmul 12 (5 / 2) = 30"
  unfolding fmul_def
  by (rule f64_near [where e = 4 and n = 8444249301319680]) simp_all

lemma small_step_11: "fdiv 536870912000 1024 = 524288000"
  unfolding fdiv_def
  by (rule f64_near [where e = 28 and n = 8796093022208000]) simp_all

lemma small_step_12: "fdiv 524288000 1024 = 512000"
  unfolding fdiv_def
  by (rule f64_near [where e = 18 and n = 8796093022208000]) simp_all

lemma small_step_13: "fdiv 512000 1024 = 500"
  unfolding fdiv_def
  by (rule f64_near [where e = 8 and n = 8796093022208000]) simp_all

lemma small_step_14: "f64 (1 / 100) = 5764607523034235 / 576460752303423488"
  by (rule f64_near [where e = "- 7" and n = 5764607523034235]) simp_all

lemma small_step_15: "fdiv 1 1000 = 1152921504606847 / 1152921504606846976"
  unfolding fdiv_def
  by (rule f64_near [where e = "- 10" and n = 4611686018427388]) simp_all

lemma small_step_16: "fadd (5764607523034235 / 576460752303423488) (1152921504606847 / 1152921504606846976) = 3170534137668829 / 288230376151711744"
  unfolding fadd_def
  by (rule f64_tie [where e = "- 7" and n = 6341068275337658]) simp_all

lemma small_step_17: "fmul 500 (3170534137668829 / 288230376151711744) = 11 / 2"
  unfolding fmul_def
  by (rule f64_near [where e = 2 and n = 6192449487634432]) simp_all

lemma small_step_18: "f64 (9 / 5) = 8106479329266893 / 4503599627370496"
  by (rule f64_near [where e = 0 and n = 8106479329266893]) simp_all

lemma small_step_19: "fadd (1182194902184755 / 281474976710656) 30 = 2406611050876109 / 70368744177664"
  unfolding fadd_def
  by (rule f64_tie [where e = 5 and n = 4813222101752217]) simp_all

lemma small_step_20: "fadd (2406611050876109 / 70368744177664) (11 / 2) = 2793639143853261 / 70368744177664"
  unfolding fadd_def
  by (rule f64_near [where e = 5 and n = 5587278287706522]) simp_all

lemma small_step_21: "fmul (2793639143853261 / 70368744177664) (8106479329266893 / 4503599627370496) = 2514275229467935 / 35184372088832"
  unfolding fmul_def
  by (rule f64_near [where e = 6 and n = 5028550458935870]) simp_all

lemma small_step_22: "fmul (2514275229467935 / 35184372088832) 1 = 2514275229467935 / 35184372088832"
  unfolding fmul_def
  by (rule f64_near [where e = 6 and n = 5028550458935870]) simp_all

lemmas small_steps = small_step_1 small_step_2 small_step_3 small_step_4 small_step_5 small_step_6 small_step_7 small_step_8 small_step_9 small_step_10 small_step_11 small_step_12 small_step_13 small_step_14 small_step_15 small_step_16 small_step_17 small_step_18 small_step_19 small_step_20 small_step_21 small_step_22

lemma large_step_1: "f64 4 = 4"
  by (rule f64_near [where e = 2 and n = 4503599627370496]) simp_all

lemma large_step_2: "fadd 10 10 = 20"
  unfolding fadd_def
  by (rule f64_near [where e = 4 and n = 5629499534213120]) simp_all

lemma large_step_3: "f64 (7 / 10) = 3152519739159347 / 4503599627370496"
  by (rule f64_near [where e = "- 1" and n = 6305039478318694]) simp_all

lemma large_step_4: "fmul 20 (3152519739159347 / 4503599627370496) = 14"
  unfolding fmul_def
  by (rule f64_tie [where e = 3 and n = 7881299347898367]) simp_all

lemma large_step_5: "f64 200 = 200"
  by (rule f64_near [where e = 7 and n = 7036874417766400]) simp_all

lemma large_step_6: "fdiv 200 100 = 2"
  unfolding fdiv_def
  by (rule f64_near [where e = 1 and n = 4503599627370496]) simp_all

lemma large_step_7: "fmul 2 2 = 4"
  unfolding fmul_def
  by (rule f64_near [where e = 2 and n = 4503599627370496]) simp_all

lemma large_step_8: "fadd 10 4 = 14"
  unfolding fadd_def
  by (rule f64_near [where e = 3 and n = 7881299347898368]) simp_all

lemma large_step_9: "f64 (5 / 2) = 5 / 2"
  by (rule f64_near [where e = 1 and n = 5629499534213120]) simp_all

lemma large_step_10: "fmul 14 (5 / 2) = 35"
  unfolding fmul_def
  by (rule f64_near [where e = 5 and n = 4925812092436480]) simp_all

lemma large_step_11: "fdiv 1073741824000 1024 = 1048576000"
  unfolding fdiv_def
  by (rule f64_near [where e = 29 and n = 8796093022208000]) simp_all

lemma large_step_12: "fdiv 1048576000 1024 = 1024000"
  unfolding fdiv_def
  by (rule f64_near [where e = 19 and n = 8796093022208000]) simp_all

lemma large_step_13: "fdiv 1024000 1024 = 1000"
  unfolding fdiv_def
  by (rule f64_near [where e = 9 and n = 8796093022208000]) simp_all

lemma large_step_14: "f64 (1 / 100) = 5764607523034235 / 576460752303423488"
  by (rule f64_near [where e = "- 7" and n = 5764607523034235]) simp_all

lemma large_step_15: "fdiv 1 1000 = 1152921504606847 / 1152921504606846976"
  unfolding fdiv_def
  by (rule f64_near [where e = "- 10" and n = 4611686018427388]) simp_all

lemma large_step_16: "fadd (5764607523034235 / 576460752303423488) (1152921504606847 / 1152921504606846976) = 3170534137668829 / 288230376151711744"
  unfolding fadd_def
  by (rule f64_tie [where e = "- 7" and n = 6341068275337658]) simp_all

lemma large_step_17: "fmul 1000 (3170534137668829 / 288230376151711744) = 11"
  unfolding fmul_def
  by (rule f64_near [where e = 3 and n = 6192449487634432]) simp_all

lemma large_step_18: "f64 (9 / 5) = 8106479329266893 / 4503599627370496"
  by (rule f64_near [where e = 0 and n = 8106479329266893]) simp_all

lemma large_step_19: "fadd 14 35 = 49"
  unfolding fadd_def
  by (rule f64_near [where e = 5 and n = 6896136929411072]) simp_all

lemma large_step_20: "fadd 49 11 = 60"
  unfolding fadd_def
  by (rule f64_near [where e = 5 and n = 8444249301319680]) simp_all

lemma large_step_21: "fmul 60 (8106479329266893 / 4503599627370496) = 108"
  unfolding fmul_def
  by (rule f64_near [where e = 6 and n = 7599824371187712]) simp_all

lemma large_step_22: "fmul 108 1 = 108"
  unfolding fmul_def
  by (rule f64_near [where e = 6 and n = 7599824371187712]) simp_all

lemmas large_steps = large_step_1 large_step_2 large_step_3 large_step_4 large_step_5 large_step_6 large_step_7 large_step_8 large_step_9 large_step_10 large_step_11 large_step_12 large_step_13 large_step_14 large_step_15 large_step_16 large_step_17 large_step_18 large_step_19 large_step_20 large_step_21 large_step_22

lemmas scoring_defs = calculateAndSavePoints_def Let_def calculateMC_eq loopSum_def
  bytesToGB_def min_float64_def max_float64_def calculateMN_def weighting_def toInt_def

lemma bytesToGB_1000: "bytesToGB (1000 * 2 ^ 30) = 1000"
  by (simp add: bytesToGB_def fdiv_def)

lemma points_eq:
  "calculateAndSavePoints m n =
     Some (toInt (fmul (fmul
       (fadd (fadd (fmul (fadd (loopSum (f64 (of_int (CPUCores (Info n))))) (loopSum (Memory (Info n))))
                      (f64 (7 / 10)))
                   (fmul (fadd 10 (fmul (min_float64 (fdiv (f64 (of_int (BandwidthUp n))) 100) 5) 2))
                      (calculateMN (NATType n))))
             (fmul (min_float64 (bytesToGB (DiskSpace (Info n))) 2000)
                (fadd (f64 (1 / 100)) (fdiv 1 (max_float64 (bytesToGB (DiskSpace (Info n))) 1000)))))
       (weighting (sint (Edges m)))) 1))"
  by (simp add: calculateAndSavePoints_def Let_def calculateMC_eq)

section \<open>Population weighting\<close>

text \<open>
  Claim C6. \<open>weighting\<close> maps the populations 2000, 2001, 5000, 5001, 10000 and 10001 to
  the \<open>float64\<close> values 2.0, 1.8, 1.8, 1.6, 1.6 and 1.4, and for every integer population
  it returns what the breakpoint table of the spec gives: the second \<open>num <= 5000\<close> branch
  of the source changes nothing.
\<close>

theorem weighting_table:
  "weighting 2000 = 2 \<and> weighting 2001 = f64 (18 / 10) \<and> weighting 5000 = f64 (18 / 10) \<and>
   weighting 5001 = f64 (16 / 10) \<and> weighting 10000 = f64 (16 / 10) \<and>
   weighting 10001 = f64 (14 / 10) \<and> weighting p = populationWeighting p"
  by (simp add: weighting_def populationWeighting_def)

section \<open>The scenario\<close>

text \<open>
  Claim C5. For a node with 4 CPU cores, memory input 4, upstream bandwidth 200, full-cone
  NAT and 1500 GB of disk space, with 1000 edges registered, \<open>calculateAndSavePoints\<close>
  returns exactly 130: \<open>calculateMC\<close> returns 14, the bandwidth score is 35, the disk
  score is 16 and the population weighting is 2.0, each in \<open>float64\<close> arithmetic.
\<close>

theorem scenario_points:
  assumes "CPUCores (Info n) = 4" "Memory (Info n) = 4" "BandwidthUp n = 200"
    and "NATType n = NatTypeFullCone" "DiskSpace (Info n) = 1500 * 2 ^ 30" "Edges m = 1000"
  shows "calculateAndSavePoints m n = Some 130 \<and>
         calculateMC (f64 (of_int (CPUCores (Info n)))) (Memory (Info n)) = Some 14 \<and>
         fmul (fadd 10 (fmul (min_float64 (fdiv (f64 (of_int (BandwidthUp n))) 100) 5) 2))
           (calculateMN (NATType n)) = 35 \<and>
         bytesToGB (DiskSpace (Info n)) = 1500 \<and>
         fmul (min_float64 1500 2000) (fadd (f64 (1 / 100)) (fdiv 1 (max_float64 1500 1000))) = 16 \<and>
         weighting (sint (Edges m)) = 2"
  using assms by (simp add: scoring_defs scenario_steps)

theorem scenario_points_witness:
  "calculateAndSavePoints (exManager\<lparr>Edges := 1000\<rparr>) exNode = Some 130"
proof -
  have "calculateAndSavePoints (exManager\<lparr>Edges := 1000\<rparr>) exNode = Some 130 \<and>
         calculateMC (f64 (of_int (CPUCores (Info exNode)))) (Memory (Info exNode)) = Some 14 \<and>
         fmul (fadd 10 (fmul (min_float64 (fdiv (f64 (of_int (BandwidthUp exNode))) 100) 5) 2))
           (calculateMN (NATType exNode)) = 35 \<and>
         bytesToGB (DiskSpace (Info exNode)) = 1500 \<and>
         fmul (min_float64 1500 2000) (fadd (f64 (1 / 100)) (fdiv 1 (max_float64 1500 1000))) = 16 \<and>
         weighting (sint (Edges (exManager\<lparr>Edges := 1000\<rparr>))) = 2"
    by (rule scenario_points) (simp_all add: exNode_def)
  then show ?thesis by simp
qed

section \<open>Monotonicity of the score\<close>

text \<open>
  Claim C7, as amended. With NAT class and edge population held fixed, increasing any of CPU
  cores, memory and upstream bandwidth never decreases the points returned by
  \<open>calculateAndSavePoints\<close>, and neither does increasing the disk space as long as the
  larger disk is at most 1000 GB; there the factor \<open>0.01 + 1/max(size, 1000)\<close> is constant.
  The nodes need not be below the saturation bounds, and several inputs may increase at once.
\<close>

theorem points_monotone:
  assumes nat: "NATType n' = NATType n"
    and cpu: "CPUCores (Info n) \<le> CPUCores (Info n')"
    and mem: "Memory (Info n) \<le> Memory (Info n')"
    and bw: "BandwidthUp n \<le> BandwidthUp n'"
    and disk: "DiskSpace (Info n) \<le> DiskSpace (Info n')"
    and low: "DiskSpace (Info n') \<le> 1000 * 2 ^ 30 \<or> DiskSpace (Info n') = DiskSpace (Info n)"
  shows "\<exists>p p'. calculateAndSavePoints m n = Some p \<and>
           calculateAndSavePoints m n' = Some p' \<and> p \<le> p'"
proof -
  let ?mc = "\<lambda>k. fmul (fadd (loopSum (f64 (of_int (CPUCores (Info k))))) (loopSum (Memory (Info k))))
                      (f64 (7 / 10))"
  let ?mbn = "\<lambda>k. fmul (fadd 10 (fmul (min_float64 (fdiv (f64 (of_int (BandwidthUp k))) 100) 5) 2))
                      (calculateMN (NATType k))"
  let ?size = "\<lambda>k. bytesToGB (DiskSpace (Info k))"
  let ?ms = "\<lambda>k. fmul (min_float64 (?size k) 2000)
                (fadd (f64 (1 / 100)) (fdiv 1 (max_float64 (?size k) 1000)))"
  have c: "f64 (of_int (CPUCores (Info n))) \<le> f64 (of_int (CPUCores (Info n')))"
    using cpu by (intro f64_mono) simp
  have mc: "?mc n \<le> ?mc n'"
    by (intro fmul_mono fadd_mono loopSum_mono c mem f64_nonneg) simp
  have b: "f64 (of_int (BandwidthUp n)) \<le> f64 (of_int (BandwidthUp n'))"
    using bw by (intro f64_mono) simp
  have mbn: "?mbn n \<le> ?mbn n'"
    unfolding nat
    by (intro fmul_mono fadd_mono min_float64_mono fdiv_mono b calculateMN_nonneg) simp_all
  have ms: "?ms n \<le> ?ms n'"
    using low
  proof
    assume "DiskSpace (Info n') = DiskSpace (Info n)"
    then show ?thesis by simp
  next
    assume l: "DiskSpace (Info n') \<le> 1000 * 2 ^ 30"
    have s': "?size n' \<le> 1000"
      using bytesToGB_mono [OF l] by (simp only: bytesToGB_1000)
    have ss: "?size n \<le> ?size n'"
      using disk by (rule bytesToGB_mono)
    have s: "?size n \<le> 1000" using ss s' by simp
    have k: "0 \<le> fadd (f64 (1 / 100)) (fdiv 1 1000)"
      unfolding fadd_def fdiv_def by (intro f64_nonneg add_nonneg_nonneg) simp_all
    have "fmul (?size n) (fadd (f64 (1 / 100)) (fdiv 1 1000))
            \<le> fmul (?size n') (fadd (f64 (1 / 100)) (fdiv 1 1000))"
      using ss k by (rule fmul_mono)
    then show ?thesis
      using s s' by (simp add: min_float64_def max_float64_def)
  qed
  have "toInt (fmul (fmul (fadd (fadd (?mc n) (?mbn n)) (?ms n)) (weighting (sint (Edges m)))) 1)
      \<le> toInt (fmul (fmul (fadd (fadd (?mc n') (?mbn n')) (?ms n')) (weighting (sint (Edges m)))) 1)"
    by (intro toInt_mono fmul_mono fadd_mono mc mbn ms weighting_nonneg) simp
  then show ?thesis
    by (simp add: points_eq)
qed

text \<open>
  From \<open>exSmall\<close> to \<open>exLarge\<close> all four inputs increase, the disk up to 1000 GB: the
  points go from 71 to 108.
\<close>

theorem points_monotone_witness:
  "calculateAndSavePoints exBusy exSmall = Some 71 \<and>
   calculateAndSavePoints exBusy exLarge = Some 108 \<and> (71::int) \<le> 108"
proof -
  have "\<exists>p p'. calculateAndSavePoints exBusy exSmall = Some p \<and>
          calculateAndSavePoints exBusy exLarge = Some p' \<and> p \<le> p'"
    by (rule points_monotone) (simp_all add: exSmall_def exLarge_def exNode_def)
  then obtain p p' where
    r: "calculateAndSavePoints exBusy exSmall = Some p"
       "calculateAndSavePoints exBusy exLarge = Some p'" "p \<le> p'"
    by blast
  have s: "calculateAndSavePoints exBusy exSmall = Some 71"
    by (simp add: exSmall_def exBusy_def exNode_def exManager_def scoring_defs small_steps
        floor_eq_iff)
  have l: "calculateAndSavePoints exBusy exLarge = Some 108"
    by (simp add: exLarge_def exBusy_def exNode_def exManager_def scoring_defs large_steps
        floor_eq_iff)
  from r s l have "p = 71" "p' = 108" by simp_all
  with r(3) s l show ?thesis by simp
qed

text \<open>
  Claim C7 as stated fails for the disk space between 1000 and 2000 GB, where the size enters
  an increasing and a decreasing factor and each operation rounds. \<open>exDiskLow\<close> and
  \<open>exDiskHigh\<close> differ in their disk space only, both are \<open>float64\<close> values below 2000
  GB, and the node with the larger disk gets 128 points, the other 129: for the smaller disk
  the sum of the scores rounds to a value whose product with 1.8 rounds to 129.0, for the
  larger one to the next smaller value, whose product is below 129.
\<close>

theorem disk_monotonicity_counterexample:
  "exDiskHigh = exDiskLow\<lparr>Info := (Info exDiskLow)\<lparr>DiskSpace := 7330077518506659 / 4096\<rparr>\<rparr> \<and>
   CPUCores (Info exDiskLow) \<le> 4 \<and> Memory (Info exDiskLow) \<le> 4 \<and>
   BandwidthUp exDiskLow \<le> 500 \<and>
   DiskSpace (Info exDiskLow) < DiskSpace (Info exDiskHigh) \<and>
   DiskSpace (Info exDiskHigh) \<le> 2000 * 2 ^ 30 \<and>
   f64 (DiskSpace (Info exDiskLow)) = DiskSpace (Info exDiskLow) \<and>
   f64 (DiskSpace (Info exDiskHigh)) = DiskSpace (Info exDiskHigh) \<and>
   calculateAndSavePoints exBusy exDiskLow = Some 129 \<and>
   calculateAndSavePoints exBusy exDiskHigh = Some 128"
  by (simp add: exDiskHigh_def exDiskLow_def exBusy_def exNode_def exManager_def scoring_defs
      disk_steps floor_eq_iff)


end
